theory Spec2Isabelle
  imports Complex_Main
begin

section \<open>Python values, exceptions and the outside world\<close>

text \<open>
  The three source files are glue around external libraries (the process environment,
  google.auth, pyiceberg, pyarrow, dlt). The embedding keeps the repository's own control
  flow and makes every external call an event: it is appended to \<open>calls\<close>, it raises when
  the parameter \<open>raises\<close> says so, and otherwise it has the effect documented by the
  library on a small store of table contents.
\<close>

type_synonym schema = "(string \<times> string) list"

datatype pyval =
    PNone
  | PStr string
  | PInt int
  | PList "pyval list"
  | Credentials pyval pyval bool
  | RecordBatch schema "pyval list"
  | PyArrowTable schema "pyval list"

text \<open>
  \<open>Credentials path scopes refreshed\<close> is the object that
  \<open>google.auth.load_credentials_from_file\<close> returns; \<open>RecordBatch\<close> and \<open>PyArrowTable\<close>
  carry a schema (column name, type name) and their rows.
\<close>

datatype exn =
    ValueError string
  | AttributeError string
  | TypeError string
  | LibraryError string

text \<open>
  The instances of Python's \<open>Exception\<close> that occur: the three built-in classes the
  code meets, and \<open>LibraryError\<close> for any other exception raised inside a library.
\<close>

type_synonym props = "(string \<times> pyval) list"

datatype call =
    LoadCredentialsFromFile pyval pyval
  | Refresh pyval
  | LoadCatalog string props
  | CreateTableIfNotExists string schema
  | Append string pyval
  | Overwrite string pyval
  | DltPipeline string string
  | PipelineRun "string list"

record world =
  calls :: "call list"
  stdout :: "string list"
  tables :: "string \<rightharpoonup> pyval list"

record external =
  environ :: "string \<rightharpoonup> string"
  now_timestamp :: rat
  raises :: "call \<Rightarrow> exn option"
  run_source :: "string list \<Rightarrow> world \<Rightarrow> world"

text \<open>
  \<open>environ\<close> is \<open>os.environ\<close>, \<open>now_timestamp\<close> the value of
  \<open>datetime.datetime.now().timestamp()\<close> (a float, hence a rational), \<open>raises\<close> tells
  for each external call whether the library raises there, and \<open>run_source\<close> is what
  \<open>pipeline.run\<close> does to the world for a list of collection names (extraction and the
  delivery of batches belong to dlt and to the mongodb package).
\<close>

type_synonym 'a prog = "world \<Rightarrow> (exn + 'a) \<times> world"

definition prog_return :: "'a \<Rightarrow> 'a prog" where
  "prog_return x w = (Inr x, w)"

definition prog_raise :: "exn \<Rightarrow> 'a prog" where
  "prog_raise e w = (Inl e, w)"

definition prog_bind :: "'a prog \<Rightarrow> ('a \<Rightarrow> 'b prog) \<Rightarrow> 'b prog" where
  "prog_bind m f w = (case m w of (Inl e, w') \<Rightarrow> (Inl e, w') | (Inr x, w') \<Rightarrow> f x w')"

definition prog_lift :: "exn + 'a \<Rightarrow> 'a prog" where
  "prog_lift r w = (r, w)"

definition result_bind :: "exn + 'a \<Rightarrow> ('a \<Rightarrow> exn + 'b) \<Rightarrow> exn + 'b" where
  "result_bind r f = (case r of Inl e \<Rightarrow> Inl e | Inr x \<Rightarrow> f x)"

definition print :: "string \<Rightarrow> unit prog" where
  "print s w = (Inr (), w\<lparr>stdout := stdout w @ [s]\<rparr>)"

definition extcall :: "external \<Rightarrow> call \<Rightarrow> unit prog" where
  "extcall ext c w =
     (let w' = w\<lparr>calls := calls w @ [c]\<rparr>
      in case raises ext c of Some e \<Rightarrow> (Inl e, w') | None \<Rightarrow> (Inr (), w'))"

definition quoted :: "string \<Rightarrow> string" where
  "quoted s = [CHR 0x27] @ s @ [CHR 0x27]"

definition dict_get :: "(string \<rightharpoonup> 'v) \<Rightarrow> string \<Rightarrow> 'v \<Rightarrow> 'v" where
  "dict_get d k dflt = (case d k of None \<Rightarrow> dflt | Some v \<Rightarrow> v)"

fun type_name :: "pyval \<Rightarrow> string" where
  "type_name PNone = ''NoneType''"
| "type_name (PStr s) = ''str''"
| "type_name (PInt i) = ''int''"
| "type_name (PList xs) = ''list''"
| "type_name (Credentials p s r) = ''Credentials''"
| "type_name (RecordBatch s rows) = ''pyarrow.lib.RecordBatch''"
| "type_name (PyArrowTable s rows) = ''pyarrow.lib.Table''"

definition no_attribute :: "string \<Rightarrow> string \<Rightarrow> exn" where
  "no_attribute ty attr = AttributeError (quoted ty @ '' object has no attribute '' @ quoted attr)"

fun py_len :: "pyval \<Rightarrow> exn + nat" where
  "py_len (PStr s) = Inr (length s)"
| "py_len (PList xs) = Inr (length xs)"
| "py_len (RecordBatch s rows) = Inr (length rows)"
| "py_len (PyArrowTable s rows) = Inr (length rows)"
| "py_len v = Inl (TypeError (''object of type '' @ quoted (type_name v) @ '' has no len()''))"

definition py_int :: "rat \<Rightarrow> int" where
  "py_int x = (if 0 \<le> x then \<lfloor>x\<rfloor> else \<lceil>x\<rceil>)"

fun py_schema :: "pyval \<Rightarrow> exn + schema" where
  "py_schema (PyArrowTable s rows) = Inr s"
| "py_schema (RecordBatch s rows) = Inr s"
| "py_schema v = Inl (no_attribute (type_name v) ''schema'')"

fun split_on :: "char \<Rightarrow> string \<Rightarrow> string list" where
  "split_on c [] = [[]]"
| "split_on c (x # xs) =
     (if x = c then [] # split_on c xs
      else (case split_on c xs of [] \<Rightarrow> [[x]] | y # ys \<Rightarrow> (x # y) # ys))"

section \<open>dataos\_utils.py\<close>

definition get_env_var :: "external \<Rightarrow> string \<Rightarrow> string option \<Rightarrow> exn + string" where
  "get_env_var ext key dflt =
     (let value = (case environ ext key of Some v \<Rightarrow> Some v | None \<Rightarrow> dflt)
      in case value of
           None \<Rightarrow> Inl (ValueError (''Environment variable '' @ quoted key @ '' is required but not set.''))
         | Some v \<Rightarrow> Inr v)"

definition get_access_token :: "external \<Rightarrow> pyval \<Rightarrow> pyval \<Rightarrow> pyval prog" where
  "get_access_token ext service_account_file_path scopes =
     prog_bind
       (if scopes = PNone then prog_return (PList [PStr ''https://www.googleapis.com/auth/cloud-platform''])
        else prog_bind (prog_lift (py_len scopes))
               (\<lambda>n. prog_return
                  (if n < 1 then PList [PStr ''https://www.googleapis.com/auth/cloud-platform'']
                   else scopes)))
       (\<lambda>scopes'.
          prog_bind (extcall ext (LoadCredentialsFromFile service_account_file_path scopes'))
            (\<lambda>_. prog_bind (extcall ext (Refresh (Credentials service_account_file_path scopes' False)))
               (\<lambda>_. prog_return (Credentials service_account_file_path scopes' True))))"

definition get_iceberg_destination_config :: "external \<Rightarrow> exn + (string \<rightharpoonup> string)" where
  "get_iceberg_destination_config ext =
     result_bind (get_env_var ext ''DESTINATION__ICEBERG__CONFIG__CLOUD_PROVIDER'' None) (\<lambda>cloud_provider.
     result_bind (get_env_var ext ''DESTINATION__ICEBERG__CONFIG__CATALOG'' None) (\<lambda>catalog.
     result_bind (get_env_var ext ''DESTINATION__ICEBERG__CONFIG__WAREHOUSE_PATH'' None) (\<lambda>warehouse_path.
     result_bind (get_env_var ext ''DESTINATION__ICEBERG__CONFIG__METASTORE_URL'' None) (\<lambda>metastore_url.
     result_bind (get_env_var ext ''DESTINATION__ICEBERG__CONFIG__TABLE'' (Some ''dlt_default_table'')) (\<lambda>table.
     result_bind (get_env_var ext ''DESTINATION__ICEBERG__CONFIG__NAMESPACE'' (Some ''dlt_default_namespace'')) (\<lambda>namespace.
       Inr [''cloud_provider'' \<mapsto> cloud_provider,
            ''catalog'' \<mapsto> catalog,
            ''warehouse_path'' \<mapsto> warehouse_path,
            ''metastore_url'' \<mapsto> metastore_url,
            ''table'' \<mapsto> table,
            ''namespace'' \<mapsto> namespace]))))))"

definition get_iceberg_credentials :: "external \<Rightarrow> string \<Rightarrow> exn + (string \<rightharpoonup> string)" where
  "get_iceberg_credentials ext cloud_provider =
     (if cloud_provider = ''gcs'' then
        result_bind (get_env_var ext ''GCS__CREDENTIALS__PROJECT_ID'' None) (\<lambda>project.
        result_bind (get_env_var ext ''GCS__CREDENTIALS__SECRET_FILE_PATH'' None) (\<lambda>secret_file_path.
          Inr [''project-is'' \<mapsto> project, ''secret_file_path'' \<mapsto> secret_file_path]))
      else if cloud_provider = ''abfss'' then
        result_bind (get_env_var ext ''ABFSS__CREDENTIALS__AZUREENDPOINTSUFFIX'' None) (\<lambda>suffix.
        result_bind (get_env_var ext ''ABFSS__CREDENTIALS__AZURESTORAGEACCOUNTNAME'' None) (\<lambda>account_name.
        result_bind (get_env_var ext ''ABFSS__CREDENTIALS__AZURESTORAGEACCOUNTKEY'' None) (\<lambda>account_key.
          Inr [''azureendpointsuffix'' \<mapsto> suffix,
               ''azurestorageaccountname'' \<mapsto> account_name,
               ''azurestorageaccountkey'' \<mapsto> account_key])))
      else if cloud_provider = ''s3'' then
        result_bind (get_env_var ext ''S3__CREDENTIALS__AWS_ACCESS_KEY_ID'' None) (\<lambda>key_id.
        result_bind (get_env_var ext ''S3__CREDENTIALS__AWS_SECRET_ACCESS_KEY'' None) (\<lambda>secret_key.
        result_bind (get_env_var ext ''S3__CREDENTIALS__REGION'' (Some ''ap-south-1'')) (\<lambda>region.
          Inr [''aws_access_key_id'' \<mapsto> key_id,
               ''aws_secret_access_key'' \<mapsto> secret_key,
               ''region'' \<mapsto> region])))
      else Inr Map.empty)"

section \<open>iceberg\_writer.py\<close>

record catalog =
  cat_name :: string
  properties :: props

record writer =
  catalog :: catalog

datatype table = Table string

text \<open>
  The pyiceberg calls. \<open>load_catalog\<close> returns a handle holding the keyword arguments it
  was given; \<open>create_table_if_not_exists\<close> adds an empty table when the identifier is
  new and returns the table; \<open>append\<close> adds the rows of the data frame and \<open>overwrite\<close>
  (with its default filter) replaces all rows by them.
\<close>

definition load_catalog :: "external \<Rightarrow> string \<Rightarrow> props \<Rightarrow> catalog prog" where
  "load_catalog ext name ps =
     prog_bind (extcall ext (LoadCatalog name ps))
       (\<lambda>_. prog_return \<lparr>cat_name = name, properties = ps\<rparr>)"

definition create_table_if_not_exists :: "external \<Rightarrow> catalog \<Rightarrow> string \<Rightarrow> schema \<Rightarrow> table prog" where
  "create_table_if_not_exists ext c identifier sch =
     prog_bind (extcall ext (CreateTableIfNotExists identifier sch))
       (\<lambda>_ w. (Inr (Table identifier),
                w\<lparr>tables := (case tables w identifier of
                                None \<Rightarrow> (tables w)(identifier \<mapsto> [])
                              | Some rows \<Rightarrow> tables w)\<rparr>))"

fun table_append :: "external \<Rightarrow> table option \<Rightarrow> pyval \<Rightarrow> unit prog" where
  "table_append ext None df = prog_raise (no_attribute ''NoneType'' ''append'')"
| "table_append ext (Some (Table identifier)) (PyArrowTable s rows) =
     prog_bind (extcall ext (Append identifier (PyArrowTable s rows)))
       (\<lambda>_ w. (Inr (), w\<lparr>tables := (tables w)(identifier \<mapsto> dict_get (tables w) identifier [] @ rows)\<rparr>))"
| "table_append ext (Some (Table identifier)) df =
     prog_raise (ValueError ''Expected PyArrow table'')"

fun table_overwrite :: "external \<Rightarrow> table option \<Rightarrow> pyval \<Rightarrow> unit prog" where
  "table_overwrite ext None df = prog_raise (no_attribute ''NoneType'' ''overwrite'')"
| "table_overwrite ext (Some (Table identifier)) (PyArrowTable s rows) =
     prog_bind (extcall ext (Overwrite identifier (PyArrowTable s rows)))
       (\<lambda>_ w. (Inr (), w\<lparr>tables := (tables w)(identifier \<mapsto> rows)\<rparr>))"
| "table_overwrite ext (Some (Table identifier)) df =
     prog_raise (ValueError ''Expected PyArrow table'')"

definition IcebergWriter_init :: "external \<Rightarrow> (string \<rightharpoonup> pyval) \<Rightarrow> writer prog" where
  "IcebergWriter_init ext connection =
     (let cloud_provider = dict_get connection ''cloud_provider'' PNone in
      if cloud_provider = PStr ''s3'' then
        prog_bind
          (load_catalog ext ''iceberg_catalog''
             [(''uri'', dict_get connection ''metastore_url'' (PStr [])),
              (''s3.access-key-id'', dict_get connection ''aws_access_key_id'' (PStr [])),
              (''s3.secret-access-key'', dict_get connection ''aws_secret_access_key'' (PStr [])),
              (''s3.region'', dict_get connection ''region'' (PStr ''ap-south-1''))])
          (\<lambda>c. prog_return \<lparr>catalog = c\<rparr>)
      else if cloud_provider = PStr ''abfss'' then
        prog_bind
          (load_catalog ext ''iceberg_catalog''
             [(''py-io-impl'', PStr ''pyiceberg.io.fsspec.FsspecFileIO''),
              (''adls.account-name'', dict_get connection ''azurestorageaccountname'' (PStr [])),
              (''adls.account-key'', dict_get connection ''azurestorageaccountkey'' (PStr [])),
              (''uri'', dict_get connection ''metastore_url'' (PStr []))])
          (\<lambda>c. prog_return \<lparr>catalog = c\<rparr>)
      else if cloud_provider = PStr ''gcs'' then
        (let secret_file_path = dict_get connection ''secret_file_path'' (PStr []);
             scopes = dict_get connection ''scopes'' PNone
         in prog_bind (get_access_token ext secret_file_path scopes)
              (\<lambda>access_token.
                 let token_expiry = py_int (now_timestamp ext) + 10000
                 in prog_bind
                      (load_catalog ext ''iceberg_catalog''
                         [(''py-io-impl'', PStr ''pyiceberg.io.fsspec.FsspecFileIO''),
                          (''uri'', dict_get connection ''metastore_url'' (PStr [])),
                          (''gcs.project-id'', dict_get connection ''project-id'' (PStr [])),
                          (''gcs.default-bucket-location'', dict_get connection ''warehouse_path'' (PStr [])),
                          (''gcs.oauth2.token-expires-at'', PInt token_expiry),
                          (''gcs.oauth2.token'', access_token)])
                      (\<lambda>c. prog_return \<lparr>catalog = c\<rparr>)))
      else prog_raise (ValueError
             (''Unsupported cloud provider. Supported providers are '' @ quoted ''s3'' @ '', ''
                @ quoted ''abfss'' @ '', and '' @ quoted ''gcp'' @ ''.'')))"

definition create_writer :: "external \<Rightarrow> (string \<rightharpoonup> pyval) \<Rightarrow> writer prog" where
  "create_writer ext connection =
     (if dict_get connection ''cloud_provider'' PNone \<in> set [PStr ''s3'', PStr ''abfss'', PStr ''gcs'']
      then IcebergWriter_init ext connection
      else prog_raise (ValueError
             (''Unsupported cloud provider. Supported providers are '' @ quoted ''s3'' @ '', ''
                @ quoted ''abfss'' @ '' and '' @ quoted ''gcs'' @ ''.'')))"

fun is_PyArrowTable :: "pyval \<Rightarrow> bool" where
  "is_PyArrowTable (PyArrowTable s rows) = True"
| "is_PyArrowTable v = False"

definition validate_data :: "pyval \<Rightarrow> bool prog" where
  "validate_data input_data =
     (if \<not> is_PyArrowTable input_data then
        prog_raise (ValueError ''Input data must be a PyArrowTable.'')
      else prog_bind (prog_lift (py_len input_data))
             (\<lambda>n. if n = 0 then prog_raise (ValueError ''Input data cannot be empty.'')
                  else prog_bind (print ''Input data is valid for Iceberg.'')
                         (\<lambda>_. prog_return True)))"

definition create_table_from_pyarrow :: "external \<Rightarrow> writer \<Rightarrow> pyval \<Rightarrow> string \<Rightarrow> table option prog" where
  "create_table_from_pyarrow ext self pyarrow_table destination w =
     (case prog_bind (prog_lift (py_schema pyarrow_table))
             (\<lambda>sch. create_table_if_not_exists ext (catalog self) destination sch) w of
        (Inr t, w') \<Rightarrow> (Inr (Some t), w')
      | (Inl e, w') \<Rightarrow>
          prog_bind (print (''Exception while creating table '' @ quoted destination @ ''.''))
            (\<lambda>_. prog_return None) w')"

definition IcebergWriter_write :: "external \<Rightarrow> writer \<Rightarrow> pyval \<Rightarrow> string \<Rightarrow> string \<Rightarrow> unit prog" where
  "IcebergWriter_write ext self input_data destination mode =
     prog_bind (validate_data input_data) (\<lambda>_.
     prog_bind (create_table_from_pyarrow ext self input_data destination) (\<lambda>iceberg_table.
     prog_bind
       (if mode = ''append'' then table_append ext iceberg_table input_data
        else if mode = ''overwrite'' then table_overwrite ext iceberg_table input_data
        else prog_raise (ValueError (''Unsupported write mode: '' @ mode)))
       (\<lambda>_. print (''Data successfully written to Iceberg table '' @ quoted destination
                     @ '' in '' @ mode @ '' mode.''))))"

section \<open>pipeline.py\<close>

fun from_batches :: "pyval list \<Rightarrow> exn + pyval" where
  "from_batches [RecordBatch s rows] = Inr (PyArrowTable s rows)"
| "from_batches [] = Inl (ValueError ''Must pass schema, or at least one RecordBatch'')"
| "from_batches bs = Inl (TypeError ''Cannot convert to pyarrow.lib.RecordBatch'')"

text \<open>
  \<open>PyArrowTable.from_batches\<close> is only ever called on the one-element list
  \<open>[resources]\<close>; the last equation stands for every input that is not a single record
  batch.
\<close>

definition str_of :: "string option \<Rightarrow> string" where
  "str_of v = (case v of None \<Rightarrow> ''None'' | Some s \<Rightarrow> s)"

definition iceberg_connection :: "external \<Rightarrow> exn + (string \<rightharpoonup> string)" where
  "iceberg_connection ext =
     result_bind (get_iceberg_destination_config ext) (\<lambda>destination_config.
       let cloud_provider = dict_get destination_config ''cloud_provider'' []
       in result_bind (get_iceberg_credentials ext cloud_provider) (\<lambda>destination_credentials.
            Inr (destination_config ++ destination_credentials)))"

definition pydict :: "(string \<rightharpoonup> string) \<Rightarrow> (string \<rightharpoonup> pyval)" where
  "pydict d = (\<lambda>k. map_option PStr (d k))"

definition full_table_path :: "(string \<rightharpoonup> string) \<Rightarrow> (string \<rightharpoonup> string) \<Rightarrow> string" where
  "full_table_path conn data_dict =
     (let table_name = (if conn ''table'' \<noteq> Some ''dlt_default_table'' then conn ''table''
                        else Some (dict_get data_dict ''name'' []));
          namespace = conn ''namespace''
      in str_of namespace @ ''.'' @ str_of table_name)"

definition iceberg_insert :: "external \<Rightarrow> pyval \<Rightarrow> (string \<rightharpoonup> string) \<Rightarrow> unit prog" where
  "iceberg_insert ext resources data_dict =
     prog_bind (prog_lift (iceberg_connection ext)) (\<lambda>conn.
     prog_bind (IcebergWriter_init ext (pydict conn)) (\<lambda>iceberg_writer.
     prog_bind (prog_lift (from_batches [resources])) (\<lambda>pyarrow_table.
     prog_bind (IcebergWriter_write ext iceberg_writer pyarrow_table
                  (full_table_path conn data_dict) ''overwrite'') (\<lambda>_.
       print (''Data successfully written to Iceberg table '' @ full_table_path conn data_dict @ ''!'')))))"

definition load_select_collection_db :: "external \<Rightarrow> string option \<Rightarrow> unit prog" where
  "load_select_collection_db ext pipeline =
     prog_bind
       (case pipeline of
          None \<Rightarrow> extcall ext (DltPipeline ''mongo_to_postgres'' ''mongo_select'')
        | Some p \<Rightarrow> prog_return ())
       (\<lambda>_. case environ ext ''SOURCES__MONGODB__COLLECTION_NAMES'' of
               None \<Rightarrow> prog_raise (no_attribute ''NoneType'' ''split'')
             | Some names \<Rightarrow>
                 let collection_name = split_on (CHR '','') names
                 in prog_bind (extcall ext (PipelineRun collection_name))
                      (\<lambda>_ w. (Inr (), run_source ext collection_name w)))"

text \<open>
  \<open>iceberg_connection\<close> is lines 30 to 33 of \<open>iceberg_insert\<close> and \<open>full_table_path\<close>
  its lines 35 to 38. The configuration read from the environment holds strings only
  (\<open>get_env_var\<close> returns \<open>str\<close>), so it is kept as a map to strings and handed to the
  writer through \<open>pydict\<close>; \<open>data_dict\<close> is dlt's table schema, whose \<open>name\<close> is a string.
  In \<open>load_select_collection_db\<close> the argument is the name of the pipeline passed in,
  \<open>None\<close> for the default of the source.
\<close>

section \<open>Call traces\<close>

text \<open>
  \<open>emits Q m\<close>: whatever \<open>m\<close> returns or raises, the external calls it adds to the
  trace all satisfy \<open>Q\<close>.
\<close>

fun is_Append :: "call \<Rightarrow> bool" where
  "is_Append (Append d t) = True"
| "is_Append c = False"

definition emits :: "(call \<Rightarrow> bool) \<Rightarrow> 'a prog \<Rightarrow> bool" where
  "emits Q m = (\<forall>w. \<exists>new. calls (snd (m w)) = calls w @ new \<and> list_all Q new)"

section \<open>Sample inputs\<close>

definition world0 :: world where
  "world0 = \<lparr>calls = [], stdout = [], tables = Map.empty\<rparr>"

definition env_s3 :: "string \<rightharpoonup> string" where
  "env_s3 = [''DESTINATION__ICEBERG__CONFIG__CLOUD_PROVIDER'' \<mapsto> ''s3'',
             ''DESTINATION__ICEBERG__CONFIG__CATALOG'' \<mapsto> ''hive'',
             ''DESTINATION__ICEBERG__CONFIG__WAREHOUSE_PATH'' \<mapsto> ''s3://bucket/wh'',
             ''DESTINATION__ICEBERG__CONFIG__METASTORE_URL'' \<mapsto> ''thrift://metastore:9083'',
             ''DESTINATION__ICEBERG__CONFIG__TABLE'' \<mapsto> ''tbl'',
             ''DESTINATION__ICEBERG__CONFIG__NAMESPACE'' \<mapsto> ''ns'',
             ''S3__CREDENTIALS__AWS_ACCESS_KEY_ID'' \<mapsto> ''AKIA'',
             ''S3__CREDENTIALS__AWS_SECRET_ACCESS_KEY'' \<mapsto> ''secret'',
             ''SOURCES__MONGODB__COLLECTION_NAMES'' \<mapsto> ''users,orders'']"

definition ext_s3 :: external where
  "ext_s3 = \<lparr>environ = env_s3, now_timestamp = 3400000001 / 2,
              raises = (\<lambda>c. None), run_source = (\<lambda>names w. w)\<rparr>"

definition ext_create_fails :: external where
  "ext_create_fails = ext_s3\<lparr>raises :=
     (\<lambda>c. case c of CreateTableIfNotExists d s \<Rightarrow> Some (LibraryError ''NoSuchNamespaceError'')
                   | _ \<Rightarrow> None)\<rparr>"

definition sample_table :: pyval where
  "sample_table = PyArrowTable [(''id'', ''long'')] [PList [PInt 1], PList [PInt 2]]"

definition sample_writer :: writer where
  "sample_writer = \<lparr>catalog = \<lparr>cat_name = ''iceberg_catalog'', properties = []\<rparr>\<rparr>"

definition conn_s3 :: "string \<rightharpoonup> pyval" where
  "conn_s3 = [''cloud_provider'' \<mapsto> PStr ''s3'',
              ''warehouse_path'' \<mapsto> PStr ''s3://bucket/wh'',
              ''metastore_url'' \<mapsto> PStr ''thrift://metastore:9083'',
              ''aws_access_key_id'' \<mapsto> PStr ''AKIA'',
              ''aws_secret_access_key'' \<mapsto> PStr ''secret'',
              ''region'' \<mapsto> PStr ''eu-west-1'']"

definition conn_abfss :: "string \<rightharpoonup> pyval" where
  "conn_abfss = [''cloud_provider'' \<mapsto> PStr ''abfss'',
                 ''metastore_url'' \<mapsto> PStr ''thrift://metastore:9083'',
                 ''azurestorageaccountname'' \<mapsto> PStr ''account'',
                 ''azurestorageaccountkey'' \<mapsto> PStr ''key'']"

definition conn_gcs :: "string \<rightharpoonup> pyval" where
  "conn_gcs = [''cloud_provider'' \<mapsto> PStr ''gcs'',
               ''warehouse_path'' \<mapsto> PStr ''gs://bucket/wh'',
               ''metastore_url'' \<mapsto> PStr ''thrift://metastore:9083'',
               ''project-id'' \<mapsto> PStr ''my-project'',
               ''secret_file_path'' \<mapsto> PStr ''/etc/key.json'']"

definition env_gcs :: "string \<rightharpoonup> string" where
  "env_gcs = [''DESTINATION__ICEBERG__CONFIG__CLOUD_PROVIDER'' \<mapsto> ''gcs'',
              ''DESTINATION__ICEBERG__CONFIG__CATALOG'' \<mapsto> ''hive'',
              ''DESTINATION__ICEBERG__CONFIG__WAREHOUSE_PATH'' \<mapsto> ''gs://bucket/wh'',
              ''DESTINATION__ICEBERG__CONFIG__METASTORE_URL'' \<mapsto> ''thrift://metastore:9083'',
              ''GCS__CREDENTIALS__PROJECT_ID'' \<mapsto> ''my-project'',
              ''GCS__CREDENTIALS__SECRET_FILE_PATH'' \<mapsto> ''/etc/key.json'',
              ''SOURCES__MONGODB__COLLECTION_NAMES'' \<mapsto> ''users'']"

definition ext_gcs :: external where
  "ext_gcs = \<lparr>environ = env_gcs, now_timestamp = 1700000000,
               raises = (\<lambda>c. None), run_source = (\<lambda>names w. w)\<rparr>"

definition ext_no_collections :: external where
  "ext_no_collections = ext_s3\<lparr>environ := env_s3(''SOURCES__MONGODB__COLLECTION_NAMES'' := None)\<rparr>"

definition world_old :: world where
  "world_old = \<lparr>calls = [], stdout = [], tables = [''ns.tbl'' \<mapsto> [PList [PInt 7]]]\<rparr>"

definition sample_batch :: pyval where
  "sample_batch = RecordBatch [(''id'', ''long'')] [PList [PInt 1], PList [PInt 2]]"

section \<open>Auxiliary facts\<close>

lemma validate_data_not_table:
  "\<not> is_PyArrowTable input_data \<Longrightarrow>
     validate_data input_data w = (Inl (ValueError ''Input data must be a PyArrowTable.''), w)"
  by (simp add: validate_data_def prog_raise_def)

lemma validate_data_empty:
  "is_PyArrowTable input_data \<Longrightarrow> py_len input_data = Inr 0 \<Longrightarrow>
     validate_data input_data w = (Inl (ValueError ''Input data cannot be empty.''), w)"
  by (simp add: validate_data_def prog_raise_def prog_bind_def prog_lift_def)

lemma validate_data_ok:
  "rows \<noteq> [] \<Longrightarrow>
     validate_data (PyArrowTable s rows) w =
       (Inr True, w\<lparr>stdout := stdout w @ [''Input data is valid for Iceberg.'']\<rparr>)"
  by (simp add: validate_data_def prog_raise_def prog_bind_def prog_lift_def print_def prog_return_def)

lemma create_table_ok:
  "raises ext (CreateTableIfNotExists destination s) = None \<Longrightarrow>
     create_table_from_pyarrow ext self (PyArrowTable s rows) destination w =
       (Inr (Some (Table destination)),
        w\<lparr>calls := calls w @ [CreateTableIfNotExists destination s],
          tables := (case tables w destination of
                       None \<Rightarrow> (tables w)(destination \<mapsto> [])
                     | Some old \<Rightarrow> tables w)\<rparr>)"
  by (simp add: create_table_from_pyarrow_def create_table_if_not_exists_def prog_bind_def
      prog_lift_def extcall_def split: option.split)

lemma create_table_failed:
  "raises ext (CreateTableIfNotExists destination s) = Some e \<Longrightarrow>
     create_table_from_pyarrow ext self (PyArrowTable s rows) destination w =
       (Inr None,
        w\<lparr>calls := calls w @ [CreateTableIfNotExists destination s],
          stdout := stdout w @ [''Exception while creating table '' @ quoted destination @ ''.'']\<rparr>)"
  by (simp add: create_table_from_pyarrow_def create_table_if_not_exists_def prog_bind_def
      prog_lift_def extcall_def print_def prog_return_def)

lemma create_table_returns:
  "\<exists>t w'. create_table_from_pyarrow ext self (PyArrowTable s rows) destination w = (Inr t, w')"
proof (cases "raises ext (CreateTableIfNotExists destination s)")
  case None
  then show ?thesis using create_table_ok by blast
next
  case (Some e)
  then show ?thesis using create_table_failed by blast
qed

lemma init_other:
  assumes "dict_get connection ''cloud_provider'' PNone \<noteq> PStr ''s3''"
    and "dict_get connection ''cloud_provider'' PNone \<noteq> PStr ''abfss''"
    and "dict_get connection ''cloud_provider'' PNone \<noteq> PStr ''gcs''"
  shows "IcebergWriter_init ext connection w =
           (Inl (ValueError (''Unsupported cloud provider. Supported providers are '' @ quoted ''s3'' @ '', ''
                @ quoted ''abfss'' @ '', and '' @ quoted ''gcp'' @ ''.'')), w)"
  unfolding IcebergWriter_init_def Let_def using assms by (simp only: if_False prog_raise_def)

lemma load_catalog_ok:
  "raises ext (LoadCatalog name ps) = None \<Longrightarrow>
     load_catalog ext name ps w =
       (Inr \<lparr>cat_name = name, properties = ps\<rparr>, w\<lparr>calls := calls w @ [LoadCatalog name ps]\<rparr>)"
  by (simp add: load_catalog_def prog_bind_def extcall_def prog_return_def)

lemma load_catalog_failed:
  "raises ext (LoadCatalog name ps) = Some e \<Longrightarrow>
     load_catalog ext name ps w = (Inl e, w\<lparr>calls := calls w @ [LoadCatalog name ps]\<rparr>)"
  by (simp add: load_catalog_def prog_bind_def extcall_def prog_return_def)

lemma load_catalog_result:
  assumes "load_catalog ext name ps w = (Inr c, w')"
  shows "c = \<lparr>cat_name = name, properties = ps\<rparr> \<and> w' = w\<lparr>calls := calls w @ [LoadCatalog name ps]\<rparr>"
  using assms by (cases "raises ext (LoadCatalog name ps)") (auto simp add: load_catalog_ok load_catalog_failed)

lemma bind_success:
  assumes "prog_bind m f w = (Inr y, w')"
  obtains x w1 where "m w = (Inr x, w1)" and "f x w1 = (Inr y, w')"
  using assms by (auto simp add: prog_bind_def split: prod.splits sum.splits)

lemma init_s3:
  assumes "dict_get connection ''cloud_provider'' PNone = PStr ''s3''"
  shows "IcebergWriter_init ext connection =
     prog_bind
          (load_catalog ext ''iceberg_catalog''
             [(''uri'', dict_get connection ''metastore_url'' (PStr [])),
              (''s3.access-key-id'', dict_get connection ''aws_access_key_id'' (PStr [])),
              (''s3.secret-access-key'', dict_get connection ''aws_secret_access_key'' (PStr [])),
              (''s3.region'', dict_get connection ''region'' (PStr ''ap-south-1''))])
          (\<lambda>c. prog_return \<lparr>catalog = c\<rparr>)"
  unfolding IcebergWriter_init_def Let_def assms by simp

lemma init_abfss:
  assumes "dict_get connection ''cloud_provider'' PNone = PStr ''abfss''"
  shows "IcebergWriter_init ext connection =
        prog_bind
          (load_catalog ext ''iceberg_catalog''
             [(''py-io-impl'', PStr ''pyiceberg.io.fsspec.FsspecFileIO''),
              (''adls.account-name'', dict_get connection ''azurestorageaccountname'' (PStr [])),
              (''adls.account-key'', dict_get connection ''azurestorageaccountkey'' (PStr [])),
              (''uri'', dict_get connection ''metastore_url'' (PStr []))])
          (\<lambda>c. prog_return \<lparr>catalog = c\<rparr>)"
  unfolding IcebergWriter_init_def Let_def assms by simp

lemma init_gcs:
  assumes "dict_get connection ''cloud_provider'' PNone = PStr ''gcs''"
  shows "IcebergWriter_init ext connection =
        prog_bind (get_access_token ext (dict_get connection ''secret_file_path'' (PStr []))
                     (dict_get connection ''scopes'' PNone))
              (\<lambda>access_token.
                 prog_bind
                      (load_catalog ext ''iceberg_catalog''
                         [(''py-io-impl'', PStr ''pyiceberg.io.fsspec.FsspecFileIO''),
                          (''uri'', dict_get connection ''metastore_url'' (PStr [])),
                          (''gcs.project-id'', dict_get connection ''project-id'' (PStr [])),
                          (''gcs.default-bucket-location'', dict_get connection ''warehouse_path'' (PStr [])),
                          (''gcs.oauth2.token-expires-at'', PInt (py_int (now_timestamp ext) + 10000)),
                          (''gcs.oauth2.token'', access_token)])
                      (\<lambda>c. prog_return \<lparr>catalog = c\<rparr>))"
  unfolding IcebergWriter_init_def Let_def assms by simp

lemma extcall_success:
  assumes "extcall ext c w = (Inr u, w')"
  shows "w' = w\<lparr>calls := calls w @ [c]\<rparr> \<and> raises ext c = None"
  using assms by (auto simp add: extcall_def Let_def split: option.splits)

lemma get_access_token_result:
  assumes "get_access_token ext path scopes w = (Inr tok, w')"
  shows "\<exists>sc. tok = Credentials path sc True
           \<and> w' = w\<lparr>calls := calls w @ [LoadCredentialsFromFile path sc, Refresh (Credentials path sc False)]\<rparr>"
proof -
  from assms [unfolded get_access_token_def]
  obtain sc w1 w2 w3 where
    sc: "(if scopes = PNone then prog_return (PList [PStr ''https://www.googleapis.com/auth/cloud-platform''])
          else prog_bind (prog_lift (py_len scopes))
               (\<lambda>n. prog_return
                  (if n < 1 then PList [PStr ''https://www.googleapis.com/auth/cloud-platform'']
                   else scopes))) w = (Inr sc, w1)"
    and c1: "extcall ext (LoadCredentialsFromFile path sc) w1 = (Inr (), w2)"
    and c2: "extcall ext (Refresh (Credentials path sc False)) w2 = (Inr (), w3)"
    and r: "prog_return (Credentials path sc True) w3 = (Inr tok, w')"
    by (elim bind_success) auto
  from sc have "w1 = w"
    by (auto simp add: prog_return_def prog_bind_def prog_lift_def split: if_splits sum.splits)
  with extcall_success [OF c1] extcall_success [OF c2] r show ?thesis
    by (auto simp add: prog_return_def)
qed

lemma init_conn_s3:
  "\<exists>wr w'. IcebergWriter_init ext_s3 conn_s3 world0 = (Inr wr, w')"
  by (simp add: init_s3 conn_s3_def dict_get_def prog_bind_def load_catalog_ok ext_s3_def prog_return_def)

lemma init_conn_abfss:
  "\<exists>wr w'. IcebergWriter_init ext_s3 conn_abfss world0 = (Inr wr, w')"
  by (simp add: init_abfss conn_abfss_def dict_get_def prog_bind_def load_catalog_ok ext_s3_def prog_return_def)

lemma get_access_token_ok:
  assumes "scopes = PNone \<or> (\<exists>xs. scopes = PList xs)" and "\<forall>c. raises ext c = None"
  shows "\<exists>sc. get_access_token ext path scopes w =
     (Inr (Credentials path sc True),
      w\<lparr>calls := calls w @ [LoadCredentialsFromFile path sc, Refresh (Credentials path sc False)]\<rparr>)"
  using assms
  by (auto simp add: get_access_token_def prog_bind_def prog_return_def prog_lift_def extcall_def)

lemma init_conn_gcs:
  "\<exists>wr w'. IcebergWriter_init ext_s3 conn_gcs world0 = (Inr wr, w')"
proof -
  have cp: "dict_get conn_gcs ''cloud_provider'' PNone = PStr ''gcs''"
    by (simp add: conn_gcs_def dict_get_def)
  have sc: "dict_get conn_gcs ''scopes'' PNone = PNone"
    by (simp add: conn_gcs_def dict_get_def)
  have nr: "\<forall>c. raises ext_s3 c = None" by (simp add: ext_s3_def)
  obtain sc' where "get_access_token ext_s3 (dict_get conn_gcs ''secret_file_path'' (PStr [])) PNone world0
     = (Inr (Credentials (dict_get conn_gcs ''secret_file_path'' (PStr [])) sc' True),
        world0\<lparr>calls := calls world0 @ [LoadCredentialsFromFile (dict_get conn_gcs ''secret_file_path'' (PStr [])) sc',
            Refresh (Credentials (dict_get conn_gcs ''secret_file_path'' (PStr [])) sc' False)]\<rparr>)"
    using get_access_token_ok [OF _ nr, of PNone] by blast
  then show ?thesis
    unfolding init_gcs [OF cp] sc
    by (simp add: prog_bind_def load_catalog_ok nr prog_return_def)
qed

lemma print_result:
  "print s w = (r, w') \<Longrightarrow> r = Inr () \<and> calls w' = calls w \<and> tables w' = tables w"
  by (auto simp add: print_def)


lemma emits_return: "emits Q (prog_return x)"
  by (simp add: emits_def prog_return_def)

lemma emits_raise: "emits Q (prog_raise e)"
  by (simp add: emits_def prog_raise_def)

lemma emits_lift: "emits Q (prog_lift r)"
  by (simp add: emits_def prog_lift_def)

lemma emits_print: "emits Q (print s)"
  by (simp add: emits_def print_def)

lemma emits_extcall: "Q c \<Longrightarrow> emits Q (extcall ext c)"
  by (simp add: emits_def extcall_def Let_def split: option.split)

lemma emits_bind:
  assumes "emits Q m" and "\<And>x. emits Q (f x)"
  shows "emits Q (prog_bind m f)"
  unfolding emits_def
proof
  fix w
  from assms(1) obtain n1 where n1: "calls (snd (m w)) = calls w @ n1" "list_all Q n1"
    unfolding emits_def by blast
  show "\<exists>new. calls (snd (prog_bind m f w)) = calls w @ new \<and> list_all Q new"
  proof (cases "m w")
    case (Pair r w1)
    show ?thesis
    proof (cases r)
      case (Inl e)
      with Pair n1 show ?thesis by (auto simp add: prog_bind_def)
    next
      case (Inr x)
      from assms(2) [of x] obtain n2 where n2: "calls (snd (f x w1)) = calls w1 @ n2" "list_all Q n2"
        unfolding emits_def by blast
      with Pair Inr n1 have "calls (snd (prog_bind m f w)) = calls w @ (n1 @ n2) \<and> list_all Q (n1 @ n2)"
        by (simp add: prog_bind_def)
      then show ?thesis by blast
    qed
  qed
qed

lemma emits_if: "emits Q a \<Longrightarrow> emits Q b \<Longrightarrow> emits Q (if c then a else b)"
  by simp

lemma emits_load_catalog: "Q (LoadCatalog name ps) \<Longrightarrow> emits Q (load_catalog ext name ps)"
  unfolding load_catalog_def by (intro emits_bind emits_extcall emits_return)

lemma emits_get_access_token:
  assumes "\<And>p s. Q (LoadCredentialsFromFile p s)" and "\<And>c. Q (Refresh c)"
  shows "emits Q (get_access_token ext path scopes)"
  unfolding get_access_token_def
  by (intro emits_bind emits_if emits_extcall emits_return emits_lift assms)

lemma emits_init:
  assumes "\<And>p s. Q (LoadCredentialsFromFile p s)" and "\<And>c. Q (Refresh c)"
    and "\<And>n ps. Q (LoadCatalog n ps)"
  shows "emits Q (IcebergWriter_init ext connection)"
  unfolding IcebergWriter_init_def Let_def
  by (intro emits_bind emits_if emits_load_catalog emits_get_access_token emits_return emits_raise assms)

lemma emits_create_table_from_pyarrow:
  assumes "\<And>d s. Q (CreateTableIfNotExists d s)"
  shows "emits Q (create_table_from_pyarrow ext self t destination)"
  unfolding emits_def
proof
  fix w
  show "\<exists>new. calls (snd (create_table_from_pyarrow ext self t destination w)) = calls w @ new \<and> list_all Q new"
  proof (cases "py_schema t")
    case (Inl e)
    then show ?thesis
      by (simp add: create_table_from_pyarrow_def prog_bind_def prog_lift_def print_def prog_return_def)
  next
    case (Inr s)
    then show ?thesis using assms [of destination s]
      by (cases "raises ext (CreateTableIfNotExists destination s)")
        (simp_all add: create_table_from_pyarrow_def create_table_if_not_exists_def prog_bind_def
          prog_lift_def print_def prog_return_def extcall_def)
  qed
qed

lemma emits_table_overwrite:
  assumes "\<And>d t. Q (Overwrite d t)"
  shows "emits Q (table_overwrite ext tb df)"
proof (cases "(ext, tb, df)" rule: table_overwrite.cases)
  case (2 ext' tid s rows)
  then show ?thesis using assms [of tid "PyArrowTable s rows"]
    by (auto simp add: emits_def prog_bind_def extcall_def Let_def split: option.split)
qed (simp_all add: emits_raise)

lemma emits_validate_data: "emits Q (validate_data t)"
  unfolding validate_data_def
  by (intro emits_bind emits_if emits_raise emits_lift emits_print emits_return)

lemma emits_write_overwrite:
  assumes "\<And>d s. Q (CreateTableIfNotExists d s)" and "\<And>d t. Q (Overwrite d t)"
  shows "emits Q (IcebergWriter_write ext self t destination ''overwrite'')"
  unfolding IcebergWriter_write_def
  by (intro emits_bind emits_validate_data emits_create_table_from_pyarrow emits_print)
    (simp_all add: assms emits_table_overwrite)

lemma emits_iceberg_insert:
  "emits (\<lambda>c. \<not> is_Append c) (iceberg_insert ext resources data_dict)"
  unfolding iceberg_insert_def
  by (intro emits_bind emits_lift emits_init emits_write_overwrite emits_print) simp_all

lemma write_overwrite_result:
  assumes "IcebergWriter_write ext self t destination ''overwrite'' w = (Inr (), w')"
  shows "\<exists>s rows. t = PyArrowTable s rows \<and> rows \<noteq> []
           \<and> calls w' = calls w @ [CreateTableIfNotExists destination s, Overwrite destination t]
           \<and> tables w' = (tables w)(destination \<mapsto> rows)"
proof -
  from assms [unfolded IcebergWriter_write_def]
  obtain b w1 tb w2 w3 where
    v: "validate_data t w = (Inr b, w1)"
    and c: "create_table_from_pyarrow ext self t destination w1 = (Inr tb, w2)"
    and o: "table_overwrite ext tb t w2 = (Inr (), w3)"
    and p: "print (''Data successfully written to Iceberg table '' @ quoted destination
                     @ '' in '' @ ''overwrite'' @ '' mode.'') w3 = (Inr (), w')"
    by (elim bind_success) (auto split: if_splits)
  from v obtain s rows where t: "t = PyArrowTable s rows" and ne: "rows \<noteq> []"
    by (cases t) (auto simp add: validate_data_def prog_raise_def prog_bind_def prog_lift_def
        split: if_splits)
  from v have w1: "calls w1 = calls w" "tables w1 = tables w"
    unfolding t by (auto simp add: validate_data_ok [OF ne])
  show ?thesis
  proof (cases "raises ext (CreateTableIfNotExists destination s)")
    case (Some e)
    with c o show ?thesis
      unfolding t by (simp add: create_table_failed prog_raise_def)
  next
    case None
    from c [unfolded t create_table_ok [OF None]]
    have tb: "tb = Some (Table destination)"
      and w2: "calls w2 = calls w1 @ [CreateTableIfNotExists destination s]"
        "tables w2 = (case tables w1 destination of None \<Rightarrow> (tables w1)(destination \<mapsto> [])
                       | Some old \<Rightarrow> tables w1)"
      by auto
    from o [unfolded tb t] have w3: "calls w3 = calls w2 @ [Overwrite destination (PyArrowTable s rows)]"
      "tables w3 = (tables w2)(destination \<mapsto> rows)"
      by (auto simp add: prog_bind_def extcall_def Let_def split: option.splits)
    from print_result [OF p] have "calls w' = calls w3" "tables w' = tables w3" by simp_all
    with w1 w2 w3 t ne show ?thesis
      by (auto split: option.splits)
  qed
qed

lemma write_append_ok:
  assumes "rows \<noteq> []"
    and "raises ext (CreateTableIfNotExists destination s) = None"
    and "raises ext (Append destination (PyArrowTable s rows)) = None"
  shows "\<exists>w'. IcebergWriter_write ext self (PyArrowTable s rows) destination ''append'' w = (Inr (), w')
           \<and> calls w' = calls w @ [CreateTableIfNotExists destination s,
                                     Append destination (PyArrowTable s rows)]
           \<and> tables w' destination = Some (dict_get (tables w) destination [] @ rows)"
  unfolding IcebergWriter_write_def
  using assms(2,3)
  by (simp add: prog_bind_def validate_data_ok [OF assms(1)] create_table_ok extcall_def print_def
      dict_get_def split: option.split)

lemma result_bind_success:
  assumes "result_bind r f = Inr y"
  obtains x where "r = Inr x" and "f x = Inr y"
  using assms by (auto simp add: result_bind_def split: sum.splits)

lemma get_env_var_required:
  "get_env_var ext key None = Inr v \<Longrightarrow> environ ext key = Some v"
  by (auto simp add: get_env_var_def split: option.splits)

lemma get_env_var_unset:
  "environ ext key = None \<Longrightarrow>
     get_env_var ext key None
       = Inl (ValueError (''Environment variable '' @ quoted key @ '' is required but not set.''))"
  by (simp add: get_env_var_def)

lemma destination_config_result:
  assumes "get_iceberg_destination_config ext = Inr dc"
  shows "\<exists>cp cat wh ms t ns.
           dc = [''cloud_provider'' \<mapsto> cp, ''catalog'' \<mapsto> cat, ''warehouse_path'' \<mapsto> wh,
                 ''metastore_url'' \<mapsto> ms, ''table'' \<mapsto> t, ''namespace'' \<mapsto> ns]"
  using assms unfolding get_iceberg_destination_config_def
  by (elim result_bind_success) blast

lemma gcs_credentials_result:
  assumes "get_iceberg_credentials ext ''gcs'' = Inr creds"
  shows "\<exists>p f. creds = [''project-is'' \<mapsto> p, ''secret_file_path'' \<mapsto> f]
           \<and> environ ext ''GCS__CREDENTIALS__PROJECT_ID'' = Some p"
proof -
  from assms have "result_bind (get_env_var ext ''GCS__CREDENTIALS__PROJECT_ID'' None) (\<lambda>project.
        result_bind (get_env_var ext ''GCS__CREDENTIALS__SECRET_FILE_PATH'' None) (\<lambda>secret_file_path.
          Inr [''project-is'' \<mapsto> project, ''secret_file_path'' \<mapsto> secret_file_path])) = Inr creds"
    by (simp add: get_iceberg_credentials_def)
  then obtain p f where "get_env_var ext ''GCS__CREDENTIALS__PROJECT_ID'' None = Inr p"
    and "creds = [''project-is'' \<mapsto> p, ''secret_file_path'' \<mapsto> f]"
    by (elim result_bind_success) auto
  with get_env_var_required show ?thesis by blast
qed

lemma credentials_keys:
  assumes "get_iceberg_credentials ext cloud_provider = Inr creds"
  shows "creds ''cloud_provider'' = None \<and> creds ''table'' = None \<and> creds ''namespace'' = None"
proof -
  consider (gcs) "cloud_provider = ''gcs''" | (abfss) "cloud_provider = ''abfss''"
    | (s3) "cloud_provider = ''s3''"
    | (other) "cloud_provider \<noteq> ''gcs''" "cloud_provider \<noteq> ''abfss''" "cloud_provider \<noteq> ''s3''"
    by blast
  then show ?thesis
  proof cases
    case gcs
    with assms gcs_credentials_result obtain p f where
      "creds = [''project-is'' \<mapsto> p, ''secret_file_path'' \<mapsto> f]" by blast
    then show ?thesis by simp
  next
    case abfss
    with assms have "result_bind (get_env_var ext ''ABFSS__CREDENTIALS__AZUREENDPOINTSUFFIX'' None) (\<lambda>suffix.
        result_bind (get_env_var ext ''ABFSS__CREDENTIALS__AZURESTORAGEACCOUNTNAME'' None) (\<lambda>account_name.
        result_bind (get_env_var ext ''ABFSS__CREDENTIALS__AZURESTORAGEACCOUNTKEY'' None) (\<lambda>account_key.
          Inr [''azureendpointsuffix'' \<mapsto> suffix,
               ''azurestorageaccountname'' \<mapsto> account_name,
               ''azurestorageaccountkey'' \<mapsto> account_key]))) = Inr creds"
      by (simp add: get_iceberg_credentials_def)
    then obtain a b c where "creds = [''azureendpointsuffix'' \<mapsto> a,
               ''azurestorageaccountname'' \<mapsto> b, ''azurestorageaccountkey'' \<mapsto> c]"
      by (elim result_bind_success) auto
    then show ?thesis by simp
  next
    case s3
    with assms have "result_bind (get_env_var ext ''S3__CREDENTIALS__AWS_ACCESS_KEY_ID'' None) (\<lambda>key_id.
        result_bind (get_env_var ext ''S3__CREDENTIALS__AWS_SECRET_ACCESS_KEY'' None) (\<lambda>secret_key.
        result_bind (get_env_var ext ''S3__CREDENTIALS__REGION'' (Some ''ap-south-1'')) (\<lambda>region.
          Inr [''aws_access_key_id'' \<mapsto> key_id,
               ''aws_secret_access_key'' \<mapsto> secret_key,
               ''region'' \<mapsto> region]))) = Inr creds"
      by (simp add: get_iceberg_credentials_def)
    then obtain a b c where "creds = [''aws_access_key_id'' \<mapsto> a,
               ''aws_secret_access_key'' \<mapsto> b, ''region'' \<mapsto> c]"
      by (elim result_bind_success) auto
    then show ?thesis by simp
  next
    case other
    with assms have "creds = Map.empty" by (simp add: get_iceberg_credentials_def)
    then show ?thesis by simp
  qed
qed

lemma iceberg_connection_result:
  assumes "iceberg_connection ext = Inr conn"
  obtains dc creds where "get_iceberg_destination_config ext = Inr dc"
    and "get_iceberg_credentials ext (dict_get dc ''cloud_provider'' []) = Inr creds"
    and "conn = dc ++ creds"
  using assms unfolding iceberg_connection_def Let_def
  by (elim result_bind_success) simp

lemma init_gcs_properties:
  assumes "dict_get connection ''cloud_provider'' PNone = PStr ''gcs''"
    and "IcebergWriter_init ext connection w = (Inr wr, w')"
  shows "map_of (properties (catalog wr)) ''gcs.project-id''
           = Some (dict_get connection ''project-id'' (PStr []))
       \<and> (\<exists>pre. calls w' = calls w @ pre
                     @ [LoadCatalog ''iceberg_catalog'' (properties (catalog wr))])"
proof -
  from assms(2) [unfolded init_gcs [OF assms(1)]]
  obtain tok w1 c w2 where
    t: "get_access_token ext (dict_get connection ''secret_file_path'' (PStr []))
          (dict_get connection ''scopes'' PNone) w = (Inr tok, w1)"
    and l: "load_catalog ext ''iceberg_catalog''
              [(''py-io-impl'', PStr ''pyiceberg.io.fsspec.FsspecFileIO''),
               (''uri'', dict_get connection ''metastore_url'' (PStr [])),
               (''gcs.project-id'', dict_get connection ''project-id'' (PStr [])),
               (''gcs.default-bucket-location'', dict_get connection ''warehouse_path'' (PStr [])),
               (''gcs.oauth2.token-expires-at'', PInt (py_int (now_timestamp ext) + 10000)),
               (''gcs.oauth2.token'', tok)] w1 = (Inr c, w2)"
    and r: "prog_return \<lparr>catalog = c\<rparr> w2 = (Inr wr, w')"
    by (elim bind_success)
  from get_access_token_result [OF t] obtain sc where
    w1: "calls w1 = calls w @ [LoadCredentialsFromFile (dict_get connection ''secret_file_path'' (PStr [])) sc,
        Refresh (Credentials (dict_get connection ''secret_file_path'' (PStr [])) sc False)]"
    by auto
  from load_catalog_result [OF l] r have
    props: "map_of (properties (catalog wr)) ''gcs.project-id''
              = Some (dict_get connection ''project-id'' (PStr []))"
    and w': "calls w' = calls w1 @ [LoadCatalog ''iceberg_catalog'' (properties (catalog wr))]"
    by (auto simp add: prog_return_def)
  from w1 w' have "calls w' = calls w
      @ [LoadCredentialsFromFile (dict_get connection ''secret_file_path'' (PStr [])) sc,
         Refresh (Credentials (dict_get connection ''secret_file_path'' (PStr [])) sc False)]
      @ [LoadCatalog ''iceberg_catalog'' (properties (catalog wr))]"
    by simp
  then have "\<exists>pre. calls w' = calls w @ pre
                     @ [LoadCatalog ''iceberg_catalog'' (properties (catalog wr))]"
    by blast
  with props show ?thesis by blast
qed

lemma iceberg_connection_ext_gcs:
  "\<exists>conn. iceberg_connection ext_gcs = Inr conn \<and> conn ''cloud_provider'' = Some ''gcs''
      \<and> conn ''scopes'' = None \<and> conn ''project-is'' = Some ''my-project''"
  by (simp add: iceberg_connection_def get_iceberg_destination_config_def get_iceberg_credentials_def
      result_bind_def get_env_var_def ext_gcs_def env_gcs_def dict_get_def map_add_def)

lemma iceberg_connection_ext_s3:
  "\<exists>conn. iceberg_connection ext_s3 = Inr conn \<and> conn ''cloud_provider'' = Some ''s3''
      \<and> conn ''table'' = Some ''tbl'' \<and> conn ''namespace'' = Some ''ns''"
  by (simp add: iceberg_connection_def get_iceberg_destination_config_def get_iceberg_credentials_def
      result_bind_def get_env_var_def ext_s3_def env_s3_def dict_get_def map_add_def)

lemma init_gcs_ok:
  assumes "dict_get connection ''cloud_provider'' PNone = PStr ''gcs''"
    and "dict_get connection ''scopes'' PNone = PNone"
    and "\<forall>c. raises ext c = None"
  shows "\<exists>wr w'. IcebergWriter_init ext connection w = (Inr wr, w')"
proof -
  obtain sc where "get_access_token ext (dict_get connection ''secret_file_path'' (PStr [])) PNone w
     = (Inr (Credentials (dict_get connection ''secret_file_path'' (PStr [])) sc True),
        w\<lparr>calls := calls w @ [LoadCredentialsFromFile (dict_get connection ''secret_file_path'' (PStr [])) sc,
            Refresh (Credentials (dict_get connection ''secret_file_path'' (PStr [])) sc False)]\<rparr>)"
    using get_access_token_ok [OF _ assms(3), of PNone] by blast
  then show ?thesis
    unfolding init_gcs [OF assms(1)] assms(2)
    by (simp add: prog_bind_def load_catalog_ok assms(3) prog_return_def)
qed

lemma init_s3_ok:
  assumes "dict_get connection ''cloud_provider'' PNone = PStr ''s3''"
    and "\<forall>c. raises ext c = None"
  shows "\<exists>wr w'. IcebergWriter_init ext connection w = (Inr wr, w')
           \<and> calls w' = calls w @ [LoadCatalog ''iceberg_catalog'' (properties (catalog wr))]
           \<and> tables w' = tables w"
  unfolding init_s3 [OF assms(1)]
  by (simp add: prog_bind_def load_catalog_ok assms(2) prog_return_def)

lemma result_bind_failure:
  assumes "result_bind r f = Inl e"
  obtains "r = Inl e" | x where "r = Inr x" and "f x = Inl e"
  using assms by (auto simp add: result_bind_def split: sum.splits)

lemma get_env_var_error:
  assumes "get_env_var ext key dflt = Inl e"
  shows "environ ext key = None
       \<and> e = ValueError (''Environment variable '' @ quoted key @ '' is required but not set.'')"
  using assms by (auto simp add: get_env_var_def split: option.splits)

lemma destination_config_error:
  assumes "get_iceberg_destination_config ext = Inl e"
  shows "\<exists>key. environ ext key = None
           \<and> e = ValueError (''Environment variable '' @ quoted key @ '' is required but not set.'')"
  using assms unfolding get_iceberg_destination_config_def
  by (elim result_bind_failure) (blast dest: get_env_var_error)+

lemma credentials_error:
  assumes "get_iceberg_credentials ext cloud_provider = Inl e"
  shows "\<exists>key. environ ext key = None
           \<and> e = ValueError (''Environment variable '' @ quoted key @ '' is required but not set.'')"
proof -
  consider (gcs) "cloud_provider = ''gcs''" | (abfss) "cloud_provider = ''abfss''"
    | (s3) "cloud_provider = ''s3''"
    | (other) "cloud_provider \<noteq> ''gcs''" "cloud_provider \<noteq> ''abfss''" "cloud_provider \<noteq> ''s3''"
    by blast
  then show ?thesis
  proof cases
    case gcs
    with assms have "result_bind (get_env_var ext ''GCS__CREDENTIALS__PROJECT_ID'' None) (\<lambda>project.
        result_bind (get_env_var ext ''GCS__CREDENTIALS__SECRET_FILE_PATH'' None) (\<lambda>secret_file_path.
          Inr [''project-is'' \<mapsto> project, ''secret_file_path'' \<mapsto> secret_file_path])) = Inl e"
      by (simp add: get_iceberg_credentials_def)
    then show ?thesis
      by (elim result_bind_failure) (blast dest: get_env_var_error)+
  next
    case abfss
    with assms have "result_bind (get_env_var ext ''ABFSS__CREDENTIALS__AZUREENDPOINTSUFFIX'' None) (\<lambda>suffix.
        result_bind (get_env_var ext ''ABFSS__CREDENTIALS__AZURESTORAGEACCOUNTNAME'' None) (\<lambda>account_name.
        result_bind (get_env_var ext ''ABFSS__CREDENTIALS__AZURESTORAGEACCOUNTKEY'' None) (\<lambda>account_key.
          Inr [''azureendpointsuffix'' \<mapsto> suffix,
               ''azurestorageaccountname'' \<mapsto> account_name,
               ''azurestorageaccountkey'' \<mapsto> account_key]))) = Inl e"
      by (simp add: get_iceberg_credentials_def)
    then show ?thesis
      by (elim result_bind_failure) (blast dest: get_env_var_error)+
  next
    case s3
    with assms have "result_bind (get_env_var ext ''S3__CREDENTIALS__AWS_ACCESS_KEY_ID'' None) (\<lambda>key_id.
        result_bind (get_env_var ext ''S3__CREDENTIALS__AWS_SECRET_ACCESS_KEY'' None) (\<lambda>secret_key.
        result_bind (get_env_var ext ''S3__CREDENTIALS__REGION'' (Some ''ap-south-1'')) (\<lambda>region.
          Inr [''aws_access_key_id'' \<mapsto> key_id,
               ''aws_secret_access_key'' \<mapsto> secret_key,
               ''region'' \<mapsto> region]))) = Inl e"
      by (simp add: get_iceberg_credentials_def)
    then show ?thesis
      by (elim result_bind_failure) (blast dest: get_env_var_error)+
  next
    case other
    with assms show ?thesis by (simp add: get_iceberg_credentials_def)
  qed
qed

lemma iceberg_connection_error:
  assumes "iceberg_connection ext = Inl e"
  shows "\<exists>key. environ ext key = None
           \<and> e = ValueError (''Environment variable '' @ quoted key @ '' is required but not set.'')"
  using assms unfolding iceberg_connection_def Let_def
  by (elim result_bind_failure) (blast dest: destination_config_error credentials_error)+

lemma destination_config_unset:
  assumes "environ ext key = None"
    and "key \<in> set [''DESTINATION__ICEBERG__CONFIG__CLOUD_PROVIDER'',
                      ''DESTINATION__ICEBERG__CONFIG__CATALOG'',
                      ''DESTINATION__ICEBERG__CONFIG__WAREHOUSE_PATH'',
                      ''DESTINATION__ICEBERG__CONFIG__METASTORE_URL'']"
  shows "\<exists>key'. environ ext key' = None
           \<and> iceberg_connection ext
               = Inl (ValueError (''Environment variable '' @ quoted key' @ '' is required but not set.''))"
proof (cases "get_iceberg_destination_config ext")
  case (Inl e)
  then have "iceberg_connection ext = Inl e"
    by (simp add: iceberg_connection_def result_bind_def)
  with destination_config_error [OF Inl] show ?thesis by auto
next
  case (Inr dc)
  then have "environ ext ''DESTINATION__ICEBERG__CONFIG__CLOUD_PROVIDER'' \<noteq> None
    \<and> environ ext ''DESTINATION__ICEBERG__CONFIG__CATALOG'' \<noteq> None
    \<and> environ ext ''DESTINATION__ICEBERG__CONFIG__WAREHOUSE_PATH'' \<noteq> None
    \<and> environ ext ''DESTINATION__ICEBERG__CONFIG__METASTORE_URL'' \<noteq> None"
    unfolding get_iceberg_destination_config_def
    by (elim result_bind_success) (auto dest!: get_env_var_required)
  with assms show ?thesis by auto
qed

section \<open>Properties of the writer\<close>

text \<open>
  C1. Whenever the catalog's \<open>create_table_if_not_exists\<close> raises (for any destination
  and any exception), \<open>create_table_from_pyarrow\<close> logs the failure, swallows the
  exception and returns \<open>None\<close>; \<open>write\<close> in mode append or overwrite then calls the
  method on \<open>None\<close>, which is an \<open>AttributeError\<close>, and no append or overwrite reaches the
  catalog.
\<close>

theorem create_failure_swallowed:
  assumes "py_schema pyarrow_table = Inr s"
    and "raises ext (CreateTableIfNotExists destination s) = Some e"
  shows "create_table_from_pyarrow ext self pyarrow_table destination w =
           (Inr None,
            w\<lparr>calls := calls w @ [CreateTableIfNotExists destination s],
              stdout := stdout w @ [''Exception while creating table '' @ quoted destination @ ''.'']\<rparr>)
       \<and> (is_PyArrowTable pyarrow_table \<and> py_len pyarrow_table \<noteq> Inr 0 \<longrightarrow>
            fst (IcebergWriter_write ext self pyarrow_table destination ''append'' w)
              = Inl (no_attribute ''NoneType'' ''append'')
          \<and> fst (IcebergWriter_write ext self pyarrow_table destination ''overwrite'' w)
              = Inl (no_attribute ''NoneType'' ''overwrite'')
          \<and> calls (snd (IcebergWriter_write ext self pyarrow_table destination ''append'' w))
              = calls w @ [CreateTableIfNotExists destination s]
          \<and> calls (snd (IcebergWriter_write ext self pyarrow_table destination ''overwrite'' w))
              = calls w @ [CreateTableIfNotExists destination s])"
proof -
  have swallowed: "create_table_from_pyarrow ext self pyarrow_table destination v =
           (Inr None,
            v\<lparr>calls := calls v @ [CreateTableIfNotExists destination s],
              stdout := stdout v @ [''Exception while creating table '' @ quoted destination @ ''.'']\<rparr>)"
    for v
    using assms
    by (simp add: create_table_from_pyarrow_def create_table_if_not_exists_def prog_bind_def
        prog_lift_def extcall_def print_def prog_return_def)
  have "fst (IcebergWriter_write ext self pyarrow_table destination mode w)
            = Inl (no_attribute ''NoneType'' mode)
        \<and> calls (snd (IcebergWriter_write ext self pyarrow_table destination mode w))
            = calls w @ [CreateTableIfNotExists destination s]"
    if tbl: "is_PyArrowTable pyarrow_table" "py_len pyarrow_table \<noteq> Inr 0"
      and mode: "mode = ''append'' \<or> mode = ''overwrite''" for mode
  proof -
    obtain s' rows where t: "pyarrow_table = PyArrowTable s' rows"
      using tbl(1) by (cases pyarrow_table) simp_all
    with tbl(2) have ne: "rows \<noteq> []" by simp
    show ?thesis
      using mode swallowed unfolding IcebergWriter_write_def
      by (auto simp add: prog_bind_def validate_data_ok [OF ne] t prog_raise_def)
  qed
  with swallowed show ?thesis by blast
qed

theorem create_failure_swallowed_witness:
  "create_table_from_pyarrow ext_create_fails sample_writer sample_table ''ns.tbl'' world0 =
     (Inr None,
      \<lparr>calls = [CreateTableIfNotExists ''ns.tbl'' [(''id'', ''long'')]],
       stdout = [''Exception while creating table '' @ quoted ''ns.tbl'' @ ''.''],
       tables = Map.empty\<rparr>)
   \<and> fst (IcebergWriter_write ext_create_fails sample_writer sample_table ''ns.tbl'' ''append'' world0)
       = Inl (no_attribute ''NoneType'' ''append'')
   \<and> fst (IcebergWriter_write ext_create_fails sample_writer sample_table ''ns.tbl'' ''overwrite'' world0)
       = Inl (no_attribute ''NoneType'' ''overwrite'')"
  using create_failure_swallowed [of sample_table "[(''id'', ''long'')]" ext_create_fails "''ns.tbl''"
      "LibraryError ''NoSuchNamespaceError''" sample_writer world0]
  by (simp add: sample_table_def ext_create_fails_def ext_s3_def world0_def)

text \<open>
  C4. When the input is not a PyArrow table, or is a table without rows, \<open>write\<close> raises
  a \<open>ValueError\<close> and leaves the world as it was: no catalog call, no table created or
  changed, nothing printed.
\<close>

theorem write_rejects_invalid_input:
  assumes "\<not> is_PyArrowTable input_data \<or> py_len input_data = Inr 0"
  shows "(\<not> is_PyArrowTable input_data \<longrightarrow>
            IcebergWriter_write ext self input_data destination mode w
              = (Inl (ValueError ''Input data must be a PyArrowTable.''), w))
       \<and> (is_PyArrowTable input_data \<longrightarrow>
            IcebergWriter_write ext self input_data destination mode w
              = (Inl (ValueError ''Input data cannot be empty.''), w))"
  using assms
  by (auto simp add: IcebergWriter_write_def prog_bind_def validate_data_not_table validate_data_empty)

theorem write_rejects_invalid_input_witness:
  "IcebergWriter_write ext_s3 sample_writer (PStr ''rows'') ''ns.tbl'' ''append'' world0
     = (Inl (ValueError ''Input data must be a PyArrowTable.''), world0)
   \<and> IcebergWriter_write ext_s3 sample_writer (PyArrowTable [(''id'', ''long'')] []) ''ns.tbl'' ''append'' world0
     = (Inl (ValueError ''Input data cannot be empty.''), world0)"
  using write_rejects_invalid_input [of "PStr ''rows''" ext_s3 sample_writer "''ns.tbl''" "''append''" world0]
    write_rejects_invalid_input [of "PyArrowTable [(''id'', ''long'')] []" ext_s3 sample_writer "''ns.tbl''" "''append''" world0]
  by simp

text \<open>
  C5. For a non-empty PyArrow table and a mode that is neither append nor overwrite,
  \<open>write\<close> raises the \<open>ValueError\<close> for an unsupported write mode, whatever the catalog
  does.
\<close>

theorem write_rejects_unknown_mode:
  assumes "is_PyArrowTable input_data" and "py_len input_data \<noteq> Inr 0"
    and "mode \<noteq> ''append''" and "mode \<noteq> ''overwrite''"
  shows "fst (IcebergWriter_write ext self input_data destination mode w)
           = Inl (ValueError (''Unsupported write mode: '' @ mode))"
proof -
  obtain s rows where t: "input_data = PyArrowTable s rows"
    using assms(1) by (cases input_data) simp_all
  with assms(2) have ne: "rows \<noteq> []" by simp
  obtain tb w' where c: "create_table_from_pyarrow ext self (PyArrowTable s rows) destination
       (w\<lparr>stdout := stdout w @ [''Input data is valid for Iceberg.'']\<rparr>) = (Inr tb, w')"
    using create_table_returns by blast
  show ?thesis
    unfolding t IcebergWriter_write_def
    using assms(3,4) by (simp add: prog_bind_def validate_data_ok [OF ne] c prog_raise_def)
qed

theorem write_rejects_unknown_mode_witness:
  "fst (IcebergWriter_write ext_s3 sample_writer sample_table ''ns.tbl'' ''upsert'' world0)
     = Inl (ValueError ''Unsupported write mode: upsert'')"
  using write_rejects_unknown_mode [of sample_table "''upsert''" ext_s3 sample_writer "''ns.tbl''" world0]
  by (simp add: sample_table_def)

text \<open>
  C6. A connection whose \<open>cloud_provider\<close> is missing or is any value other than the
  strings s3, abfss and gcs is rejected with a \<open>ValueError\<close>, by \<open>Writer.create_writer\<close>
  and by the constructor of \<open>IcebergWriter\<close> alike, before anything else happens.
\<close>

theorem unsupported_provider_rejected:
  assumes "connection ''cloud_provider'' \<notin> {Some (PStr ''s3''), Some (PStr ''abfss''), Some (PStr ''gcs'')}"
  shows "(\<exists>msg. create_writer ext connection w = (Inl (ValueError msg), w))
       \<and> (\<exists>msg. IcebergWriter_init ext connection w = (Inl (ValueError msg), w))"
proof -
  have ne: "dict_get connection ''cloud_provider'' PNone \<noteq> PStr ''s3''"
    "dict_get connection ''cloud_provider'' PNone \<noteq> PStr ''abfss''"
    "dict_get connection ''cloud_provider'' PNone \<noteq> PStr ''gcs''"
    using assms by (auto simp add: dict_get_def split: option.splits)
  have "\<exists>msg. create_writer ext connection w = (Inl (ValueError msg), w)"
    using ne by (simp add: create_writer_def prog_raise_def)
  moreover have "\<exists>msg. IcebergWriter_init ext connection w = (Inl (ValueError msg), w)"
    using init_other [OF ne] by blast
  ultimately show ?thesis by blast
qed

theorem unsupported_provider_rejected_witness:
  "(\<exists>msg. create_writer ext_s3 [''cloud_provider'' \<mapsto> PStr ''azure''] world0 = (Inl (ValueError msg), world0))
 \<and> (\<exists>msg. IcebergWriter_init ext_s3 [''cloud_provider'' \<mapsto> PStr ''azure''] world0 = (Inl (ValueError msg), world0))
 \<and> (\<exists>msg. IcebergWriter_init ext_s3 Map.empty world0 = (Inl (ValueError msg), world0))"
  using unsupported_provider_rejected [of "[''cloud_provider'' \<mapsto> PStr ''azure'']" ext_s3 world0]
    unsupported_provider_rejected [of Map.empty ext_s3 world0]
  by simp

text \<open>
  C2. Whenever the constructor succeeds, the keyword arguments it handed to
  \<open>load_catalog\<close> are exactly the keys of the selected provider: the four of s3, the four
  of abfss or the six of gcs, and the catalog of the writer was loaded with them.
\<close>

theorem provider_properties_keys:
  assumes "IcebergWriter_init ext connection w = (Inr wr, w')"
  shows "(connection ''cloud_provider'' = Some (PStr ''s3'') \<longrightarrow>
            map fst (properties (catalog wr))
              = [''uri'', ''s3.access-key-id'', ''s3.secret-access-key'', ''s3.region''])
       \<and> (connection ''cloud_provider'' = Some (PStr ''abfss'') \<longrightarrow>
            map fst (properties (catalog wr))
              = [''py-io-impl'', ''adls.account-name'', ''adls.account-key'', ''uri''])
       \<and> (connection ''cloud_provider'' = Some (PStr ''gcs'') \<longrightarrow>
            map fst (properties (catalog wr))
              = [''py-io-impl'', ''uri'', ''gcs.project-id'', ''gcs.default-bucket-location'',
                 ''gcs.oauth2.token-expires-at'', ''gcs.oauth2.token''])
       \<and> last (calls w') = LoadCatalog ''iceberg_catalog'' (properties (catalog wr))"
proof -
  have s3: "map fst (properties (catalog wr))
              = [''uri'', ''s3.access-key-id'', ''s3.secret-access-key'', ''s3.region'']
            \<and> last (calls w') = LoadCatalog ''iceberg_catalog'' (properties (catalog wr))"
    if "connection ''cloud_provider'' = Some (PStr ''s3'')"
  proof -
    from that have "dict_get connection ''cloud_provider'' PNone = PStr ''s3''"
      by (simp add: dict_get_def)
    from assms [unfolded init_s3 [OF this]] show ?thesis
      by (elim bind_success) (auto dest!: load_catalog_result simp add: prog_return_def)
  qed
  have abfss: "map fst (properties (catalog wr))
              = [''py-io-impl'', ''adls.account-name'', ''adls.account-key'', ''uri'']
            \<and> last (calls w') = LoadCatalog ''iceberg_catalog'' (properties (catalog wr))"
    if "connection ''cloud_provider'' = Some (PStr ''abfss'')"
  proof -
    from that have "dict_get connection ''cloud_provider'' PNone = PStr ''abfss''"
      by (simp add: dict_get_def)
    from assms [unfolded init_abfss [OF this]] show ?thesis
      by (elim bind_success) (auto dest!: load_catalog_result simp add: prog_return_def)
  qed
  have gcs: "map fst (properties (catalog wr))
              = [''py-io-impl'', ''uri'', ''gcs.project-id'', ''gcs.default-bucket-location'',
                 ''gcs.oauth2.token-expires-at'', ''gcs.oauth2.token'']
            \<and> last (calls w') = LoadCatalog ''iceberg_catalog'' (properties (catalog wr))"
    if "connection ''cloud_provider'' = Some (PStr ''gcs'')"
  proof -
    from that have "dict_get connection ''cloud_provider'' PNone = PStr ''gcs''"
      by (simp add: dict_get_def)
    from assms [unfolded init_gcs [OF this]] show ?thesis
      by (elim bind_success) (auto dest!: load_catalog_result simp add: prog_return_def)
  qed
  have other: "dict_get connection ''cloud_provider'' PNone = PStr ''s3''
      \<or> dict_get connection ''cloud_provider'' PNone = PStr ''abfss''
      \<or> dict_get connection ''cloud_provider'' PNone = PStr ''gcs''"
    using assms init_other [of connection ext w] by auto
  then have "connection ''cloud_provider'' = Some (PStr ''s3'')
      \<or> connection ''cloud_provider'' = Some (PStr ''abfss'')
      \<or> connection ''cloud_provider'' = Some (PStr ''gcs'')"
    by (auto simp add: dict_get_def split: option.splits)
  with s3 abfss gcs show ?thesis by blast
qed

theorem provider_properties_keys_witness:
  "(\<exists>wr w'. IcebergWriter_init ext_s3 conn_s3 world0 = (Inr wr, w')
      \<and> map fst (properties (catalog wr))
           = [''uri'', ''s3.access-key-id'', ''s3.secret-access-key'', ''s3.region''])
 \<and> (\<exists>wr w'. IcebergWriter_init ext_s3 conn_abfss world0 = (Inr wr, w')
      \<and> map fst (properties (catalog wr))
           = [''py-io-impl'', ''adls.account-name'', ''adls.account-key'', ''uri''])
 \<and> (\<exists>wr w'. IcebergWriter_init ext_s3 conn_gcs world0 = (Inr wr, w')
      \<and> map fst (properties (catalog wr))
           = [''py-io-impl'', ''uri'', ''gcs.project-id'', ''gcs.default-bucket-location'',
              ''gcs.oauth2.token-expires-at'', ''gcs.oauth2.token''])"
proof -
  obtain wr1 w1 where i1: "IcebergWriter_init ext_s3 conn_s3 world0 = (Inr wr1, w1)"
    using init_conn_s3 by blast
  obtain wr2 w2 where i2: "IcebergWriter_init ext_s3 conn_abfss world0 = (Inr wr2, w2)"
    using init_conn_abfss by blast
  obtain wr3 w3 where i3: "IcebergWriter_init ext_s3 conn_gcs world0 = (Inr wr3, w3)"
    using init_conn_gcs by blast
  have "conn_s3 ''cloud_provider'' = Some (PStr ''s3'')" by (simp add: conn_s3_def)
  with provider_properties_keys [OF i1] i1 have 1: "\<exists>wr w'. IcebergWriter_init ext_s3 conn_s3 world0 = (Inr wr, w')
      \<and> map fst (properties (catalog wr))
           = [''uri'', ''s3.access-key-id'', ''s3.secret-access-key'', ''s3.region'']"
    by auto
  have "conn_abfss ''cloud_provider'' = Some (PStr ''abfss'')" by (simp add: conn_abfss_def)
  with provider_properties_keys [OF i2] i2 have 2: "\<exists>wr w'. IcebergWriter_init ext_s3 conn_abfss world0 = (Inr wr, w')
      \<and> map fst (properties (catalog wr))
           = [''py-io-impl'', ''adls.account-name'', ''adls.account-key'', ''uri'']"
    by auto
  have "conn_gcs ''cloud_provider'' = Some (PStr ''gcs'')" by (simp add: conn_gcs_def)
  with provider_properties_keys [OF i3] i3 have 3: "\<exists>wr w'. IcebergWriter_init ext_s3 conn_gcs world0 = (Inr wr, w')
      \<and> map fst (properties (catalog wr))
           = [''py-io-impl'', ''uri'', ''gcs.project-id'', ''gcs.default-bucket-location'',
              ''gcs.oauth2.token-expires-at'', ''gcs.oauth2.token'']"
    by auto
  from 1 2 3 show ?thesis by blast
qed

text \<open>
  C7. For the provider gcs, a constructor that succeeds has first loaded the service
  account credentials through google.auth and refreshed them, then loaded the catalog;
  the parameter \<open>gcs.oauth2.token-expires-at\<close> is the current timestamp, cut to whole
  seconds, plus 10000, and \<open>gcs.oauth2.token\<close> is the refreshed credentials object.
\<close>

theorem gcs_token_expiry:
  assumes "connection ''cloud_provider'' = Some (PStr ''gcs'')"
    and "IcebergWriter_init ext connection w = (Inr wr, w')"
  shows "\<exists>sc. calls w' = calls w @
                 [LoadCredentialsFromFile (dict_get connection ''secret_file_path'' (PStr [])) sc,
                  Refresh (Credentials (dict_get connection ''secret_file_path'' (PStr [])) sc False),
                  LoadCatalog ''iceberg_catalog'' (properties (catalog wr))]
            \<and> map_of (properties (catalog wr)) ''gcs.oauth2.token''
                 = Some (Credentials (dict_get connection ''secret_file_path'' (PStr [])) sc True)
            \<and> map_of (properties (catalog wr)) ''gcs.oauth2.token-expires-at''
                 = Some (PInt (py_int (now_timestamp ext) + 10000))"
proof -
  from assms(1) have cp: "dict_get connection ''cloud_provider'' PNone = PStr ''gcs''"
    by (simp add: dict_get_def)
  from assms(2) [unfolded init_gcs [OF cp]]
  obtain tok w1 c w2 where
    t: "get_access_token ext (dict_get connection ''secret_file_path'' (PStr []))
          (dict_get connection ''scopes'' PNone) w = (Inr tok, w1)"
    and l: "load_catalog ext ''iceberg_catalog''
              [(''py-io-impl'', PStr ''pyiceberg.io.fsspec.FsspecFileIO''),
               (''uri'', dict_get connection ''metastore_url'' (PStr [])),
               (''gcs.project-id'', dict_get connection ''project-id'' (PStr [])),
               (''gcs.default-bucket-location'', dict_get connection ''warehouse_path'' (PStr [])),
               (''gcs.oauth2.token-expires-at'', PInt (py_int (now_timestamp ext) + 10000)),
               (''gcs.oauth2.token'', tok)] w1 = (Inr c, w2)"
    and r: "prog_return \<lparr>catalog = c\<rparr> w2 = (Inr wr, w')"
    by (elim bind_success)
  from get_access_token_result [OF t] obtain sc where
    sc: "tok = Credentials (dict_get connection ''secret_file_path'' (PStr [])) sc True"
    "w1 = w\<lparr>calls := calls w @ [LoadCredentialsFromFile (dict_get connection ''secret_file_path'' (PStr [])) sc,
        Refresh (Credentials (dict_get connection ''secret_file_path'' (PStr [])) sc False)]\<rparr>"
    by blast
  from load_catalog_result [OF l] r sc show ?thesis
    by (auto simp add: prog_return_def)
qed

theorem gcs_token_expiry_witness:
  "\<exists>wr w'. IcebergWriter_init ext_s3 conn_gcs world0 = (Inr wr, w')
     \<and> map_of (properties (catalog wr)) ''gcs.oauth2.token-expires-at'' = Some (PInt 1700010000)"
proof -
  obtain wr3 w3 where i3: "IcebergWriter_init ext_s3 conn_gcs world0 = (Inr wr3, w3)"
    using init_conn_gcs by blast
  have cp: "conn_gcs ''cloud_provider'' = Some (PStr ''gcs'')" by (simp add: conn_gcs_def)
  have "py_int (now_timestamp ext_s3) + 10000 = 1700010000"
    unfolding ext_s3_def by code_simp
  with gcs_token_expiry [OF cp i3] i3 show ?thesis by auto
qed

text \<open>
  C8. With provider s3 and no external call raising, the constructor succeeds and
  \<open>write\<close> of a non-empty table to \<open>ns.tbl\<close> in mode append returns normally; the calls
  it makes are one \<open>create_table_if_not_exists\<close> and exactly one \<open>append\<close> on \<open>ns.tbl\<close>,
  after which the table holds its former rows followed by the new ones.
\<close>

theorem s3_append_once:
  assumes "connection ''cloud_provider'' = Some (PStr ''s3'')"
    and "\<forall>c. raises ext c = None"
    and "rows \<noteq> []"
  shows "\<exists>wr w1 w2. IcebergWriter_init ext connection w = (Inr wr, w1)
           \<and> IcebergWriter_write ext wr (PyArrowTable s rows) ''ns.tbl'' ''append'' w1 = (Inr (), w2)
           \<and> calls w2 = calls w1 @ [CreateTableIfNotExists ''ns.tbl'' s,
                                      Append ''ns.tbl'' (PyArrowTable s rows)]
           \<and> tables w2 ''ns.tbl'' = Some (dict_get (tables w) ''ns.tbl'' [] @ rows)"
proof -
  from assms(1) have cp: "dict_get connection ''cloud_provider'' PNone = PStr ''s3''"
    by (simp add: dict_get_def)
  obtain wr w1 where i: "IcebergWriter_init ext connection w = (Inr wr, w1)"
    and t: "tables w1 = tables w"
    unfolding init_s3 [OF cp] using assms(2)
    by (simp add: prog_bind_def load_catalog_ok prog_return_def)
  from write_append_ok [OF assms(3), of ext "''ns.tbl''" s wr w1] assms(2)
  obtain w2 where "IcebergWriter_write ext wr (PyArrowTable s rows) ''ns.tbl'' ''append'' w1 = (Inr (), w2)"
    and "calls w2 = calls w1 @ [CreateTableIfNotExists ''ns.tbl'' s, Append ''ns.tbl'' (PyArrowTable s rows)]"
    and "tables w2 ''ns.tbl'' = Some (dict_get (tables w1) ''ns.tbl'' [] @ rows)"
    by auto
  with i t show ?thesis by auto
qed

theorem s3_append_once_witness:
  "\<exists>wr w1 w2. IcebergWriter_init ext_s3 conn_s3 world0 = (Inr wr, w1)
     \<and> IcebergWriter_write ext_s3 wr sample_table ''ns.tbl'' ''append'' w1 = (Inr (), w2)
     \<and> calls w2 = calls w1 @ [CreateTableIfNotExists ''ns.tbl'' [(''id'', ''long'')],
                                Append ''ns.tbl'' sample_table]
     \<and> tables w2 ''ns.tbl'' = Some [PList [PInt 1], PList [PInt 2]]"
  using s3_append_once [of conn_s3 ext_s3 "[PList [PInt 1], PList [PInt 2]]" world0 "[(''id'', ''long'')]"]
  by (simp add: conn_s3_def ext_s3_def sample_table_def world0_def dict_get_def)

section \<open>Properties of the pipeline\<close>

text \<open>
  C9. For a connection derived from the environment with provider gcs, the value of
  \<open>GCS__CREDENTIALS__PROJECT_ID\<close> is stored under the key \<open>project-is\<close> and the key
  \<open>project-id\<close> is absent. The writer reads the key \<open>project-id\<close>: for every gcs
  connection the parameter \<open>gcs.project-id\<close> it hands to \<open>load_catalog\<close> is the value
  of that key, the empty string when the key is missing. So for the environment-derived
  connection the catalog is loaded with \<open>gcs.project-id\<close> empty, whatever the variable
  holds.
\<close>

theorem gcs_project_id_empty:
  assumes "iceberg_connection ext = Inr conn"
    and "conn ''cloud_provider'' = Some ''gcs''"
    and "IcebergWriter_init ext (pydict conn) w = (Inr wr, w')"
  shows "conn ''project-is'' = environ ext ''GCS__CREDENTIALS__PROJECT_ID''
       \<and> conn ''project-is'' \<noteq> None
       \<and> conn ''project-id'' = None
       \<and> map_of (properties (catalog wr)) ''gcs.project-id''
           = Some (dict_get (pydict conn) ''project-id'' (PStr []))
       \<and> map_of (properties (catalog wr)) ''gcs.project-id'' = Some (PStr [])
       \<and> (\<exists>pre. calls w' = calls w @ pre
                     @ [LoadCatalog ''iceberg_catalog'' (properties (catalog wr))])
       \<and> (\<forall>c v wr2 v'.
             c ''cloud_provider'' = Some (PStr ''gcs'') \<longrightarrow>
             IcebergWriter_init ext c v = (Inr wr2, v') \<longrightarrow>
               map_of (properties (catalog wr2)) ''gcs.project-id''
                 = Some (dict_get c ''project-id'' (PStr []))
               \<and> (\<exists>pre. calls v' = calls v @ pre
                             @ [LoadCatalog ''iceberg_catalog'' (properties (catalog wr2))]))"
proof -
  from assms(1) obtain dc creds where dc: "get_iceberg_destination_config ext = Inr dc"
    and creds: "get_iceberg_credentials ext (dict_get dc ''cloud_provider'' []) = Inr creds"
    and conn: "conn = dc ++ creds"
    by (rule iceberg_connection_result)
  from destination_config_result [OF dc] obtain cp cat wh ms t ns where
    dc_eq: "dc = [''cloud_provider'' \<mapsto> cp, ''catalog'' \<mapsto> cat, ''warehouse_path'' \<mapsto> wh,
                 ''metastore_url'' \<mapsto> ms, ''table'' \<mapsto> t, ''namespace'' \<mapsto> ns]"
    by blast
  have nid: "dc ''project-id'' = None" and dcp: "dc ''cloud_provider'' = Some cp"
    unfolding dc_eq by simp_all
  from credentials_keys [OF creds] have "creds ''cloud_provider'' = None" by simp
  with assms(2) have "dc ''cloud_provider'' = Some ''gcs''"
    unfolding conn by (simp add: map_add_def)
  then have "dict_get dc ''cloud_provider'' [] = ''gcs''" by (simp add: dict_get_def)
  with creds have "get_iceberg_credentials ext ''gcs'' = Inr creds" by simp
  from gcs_credentials_result [OF this]
  obtain p f where c: "creds = [''project-is'' \<mapsto> p, ''secret_file_path'' \<mapsto> f]"
    and p: "environ ext ''GCS__CREDENTIALS__PROJECT_ID'' = Some p"
    by blast
  have 1: "conn ''project-is'' = Some p" unfolding conn c by simp
  have 2: "conn ''project-id'' = None" unfolding conn c using nid by (simp add: map_add_def)
  have cp: "dict_get (pydict conn) ''cloud_provider'' PNone = PStr ''gcs''"
    using assms(2) by (simp add: dict_get_def pydict_def)
  have empty: "dict_get (pydict conn) ''project-id'' (PStr []) = PStr []"
    using 2 by (simp add: dict_get_def pydict_def)
  have reads: "map_of (properties (catalog wr2)) ''gcs.project-id''
                 = Some (dict_get c ''project-id'' (PStr []))
               \<and> (\<exists>pre. calls v' = calls v @ pre
                             @ [LoadCatalog ''iceberg_catalog'' (properties (catalog wr2))])"
    if "c ''cloud_provider'' = Some (PStr ''gcs'')"
      and "IcebergWriter_init ext c v = (Inr wr2, v')" for c v wr2 v'
  proof -
    from that(1) have "dict_get c ''cloud_provider'' PNone = PStr ''gcs''"
      by (simp add: dict_get_def)
    from init_gcs_properties [OF this that(2)] show ?thesis .
  qed
  from init_gcs_properties [OF cp assms(3)] have
    own: "map_of (properties (catalog wr)) ''gcs.project-id''
            = Some (dict_get (pydict conn) ''project-id'' (PStr []))"
      "\<exists>pre. calls w' = calls w @ pre
                     @ [LoadCatalog ''iceberg_catalog'' (properties (catalog wr))]"
    by blast+
  from own(1) empty have e: "map_of (properties (catalog wr)) ''gcs.project-id'' = Some (PStr [])"
    by simp
  from 1 2 p own e reads show ?thesis by (simp only: simp_thms option.simps) blast
qed

theorem gcs_project_id_empty_witness:
  "\<exists>conn wr w'. iceberg_connection ext_gcs = Inr conn
      \<and> IcebergWriter_init ext_gcs (pydict conn) world0 = (Inr wr, w')
      \<and> environ ext_gcs ''GCS__CREDENTIALS__PROJECT_ID'' = Some ''my-project''
      \<and> conn ''project-is'' = Some ''my-project''
      \<and> conn ''project-id'' = None
      \<and> map_of (properties (catalog wr)) ''gcs.project-id'' = Some (PStr [])
      \<and> (\<exists>pre. calls w' = calls world0 @ pre
                    @ [LoadCatalog ''iceberg_catalog'' (properties (catalog wr))])
      \<and> (\<exists>wr2 v'. IcebergWriter_init ext_gcs conn_gcs world0 = (Inr wr2, v')
            \<and> map_of (properties (catalog wr2)) ''gcs.project-id'' = Some (PStr ''my-project'')
            \<and> (\<exists>pre. calls v' = calls world0 @ pre
                          @ [LoadCatalog ''iceberg_catalog'' (properties (catalog wr2))]))"
proof -
  obtain conn where c: "iceberg_connection ext_gcs = Inr conn"
    and cp: "conn ''cloud_provider'' = Some ''gcs''" and sc: "conn ''scopes'' = None"
    using iceberg_connection_ext_gcs by blast
  have nr: "\<forall>c. raises ext_gcs c = None" by (simp add: ext_gcs_def)
  have "dict_get (pydict conn) ''cloud_provider'' PNone = PStr ''gcs''"
    "dict_get (pydict conn) ''scopes'' PNone = PNone"
    using cp sc by (simp_all add: dict_get_def pydict_def)
  from init_gcs_ok [OF this nr] obtain wr w' where
    i: "IcebergWriter_init ext_gcs (pydict conn) world0 = (Inr wr, w')" by blast
  have "dict_get conn_gcs ''cloud_provider'' PNone = PStr ''gcs''"
    "dict_get conn_gcs ''scopes'' PNone = PNone"
    by (simp_all add: dict_get_def conn_gcs_def)
  from init_gcs_ok [OF this nr] obtain wr2 v' where
    i2: "IcebergWriter_init ext_gcs conn_gcs world0 = (Inr wr2, v')" by blast
  have cp2: "conn_gcs ''cloud_provider'' = Some (PStr ''gcs'')" by (simp add: conn_gcs_def)
  have pid: "dict_get conn_gcs ''project-id'' (PStr []) = PStr ''my-project''"
    by (simp add: dict_get_def conn_gcs_def)
  have env: "environ ext_gcs ''GCS__CREDENTIALS__PROJECT_ID'' = Some ''my-project''"
    by (simp add: ext_gcs_def env_gcs_def)
  note main = gcs_project_id_empty [OF c cp i]
  from main have through: "map_of (properties (catalog wr2)) ''gcs.project-id''
                 = Some (dict_get conn_gcs ''project-id'' (PStr []))
               \<and> (\<exists>pre. calls v' = calls world0 @ pre
                             @ [LoadCatalog ''iceberg_catalog'' (properties (catalog wr2))])"
    using cp2 i2 by blast
  from main env have own: "conn ''project-is'' = Some ''my-project''" "conn ''project-id'' = None"
    "map_of (properties (catalog wr)) ''gcs.project-id'' = Some (PStr [])"
    "\<exists>pre. calls w' = calls world0 @ pre
                    @ [LoadCatalog ''iceberg_catalog'' (properties (catalog wr))]"
    by auto
  from through pid have t2: "map_of (properties (catalog wr2)) ''gcs.project-id'' = Some (PStr ''my-project'')"
    "\<exists>pre. calls v' = calls world0 @ pre
                          @ [LoadCatalog ''iceberg_catalog'' (properties (catalog wr2))]"
    by simp_all
  from c i env own i2 t2 show ?thesis by blast
qed

text \<open>
  C10. \<open>iceberg_insert\<close> never appends: whatever happens, none of the calls it makes is
  an \<open>append\<close>; and when it returns normally its input was a record batch, its last two
  calls were \<open>create_table_if_not_exists\<close> and \<open>overwrite\<close> on the destination, and the
  destination table then holds exactly the rows of this batch, whatever earlier batches
  had written there.
\<close>

theorem insert_overwrites:
  assumes "iceberg_insert ext resources data_dict w = (r, w')"
  shows "(\<exists>new. calls w' = calls w @ new \<and> (\<forall>d t. Append d t \<notin> set new))
       \<and> (r = Inr () \<longrightarrow>
            (\<exists>conn s rows pre. iceberg_connection ext = Inr conn
               \<and> resources = RecordBatch s rows
               \<and> calls w' = calls w @ pre @
                    [CreateTableIfNotExists (full_table_path conn data_dict) s,
                     Overwrite (full_table_path conn data_dict) (PyArrowTable s rows)]
               \<and> tables w' (full_table_path conn data_dict) = Some rows))"
proof -
  from emits_iceberg_insert [of ext resources data_dict] assms
  obtain new where new: "calls w' = calls w @ new" "list_all (\<lambda>c. \<not> is_Append c) new"
    unfolding emits_def by (metis snd_conv)
  have "Append d t \<notin> set new" for d t
    using new(2) by (auto simp add: list_all_iff)
  with new(1) have first: "\<exists>new. calls w' = calls w @ new \<and> (\<forall>d t. Append d t \<notin> set new)"
    by blast
  have second: "\<exists>conn s rows pre. iceberg_connection ext = Inr conn
               \<and> resources = RecordBatch s rows
               \<and> calls w' = calls w @ pre @
                    [CreateTableIfNotExists (full_table_path conn data_dict) s,
                     Overwrite (full_table_path conn data_dict) (PyArrowTable s rows)]
               \<and> tables w' (full_table_path conn data_dict) = Some rows"
    if "r = Inr ()"
  proof -
    from assms [unfolded that iceberg_insert_def]
    obtain conn w0 wr w1 t w2 w3 where
      c: "prog_lift (iceberg_connection ext) w = (Inr conn, w0)"
      and i: "IcebergWriter_init ext (pydict conn) w0 = (Inr wr, w1)"
      and b: "prog_lift (from_batches [resources]) w1 = (Inr t, w2)"
      and wt: "IcebergWriter_write ext wr t (full_table_path conn data_dict) ''overwrite'' w2 = (Inr (), w3)"
      and p: "print (''Data successfully written to Iceberg table '' @ full_table_path conn data_dict @ ''!'') w3
                = (Inr (), w')"
      by (elim bind_success) auto
    from c have c': "iceberg_connection ext = Inr conn" and w0: "w0 = w"
      by (simp_all add: prog_lift_def)
    from b have b': "from_batches [resources] = Inr t" and w2: "w2 = w1"
      by (simp_all add: prog_lift_def)
    from emits_init [of "\<lambda>c. True" ext "pydict conn"] i w0
    obtain pre where pre: "calls w1 = calls w @ pre"
      unfolding emits_def by (metis snd_conv)
    from write_overwrite_result [OF wt] obtain s rows where
      t: "t = PyArrowTable s rows"
      and cw: "calls w3 = calls w2 @ [CreateTableIfNotExists (full_table_path conn data_dict) s,
                                      Overwrite (full_table_path conn data_dict) t]"
      and tw: "tables w3 = (tables w2)(full_table_path conn data_dict \<mapsto> rows)"
      by blast
    from b' t have res: "resources = RecordBatch s rows"
      by (cases "[resources]" rule: from_batches.cases) simp_all
    from print_result [OF p] have "calls w' = calls w3" "tables w' = tables w3" by simp_all
    with c' res pre cw tw t w2 show ?thesis by simp
  qed
  from first second show ?thesis by blast
qed

theorem insert_overwrites_witness:
  "\<exists>w'. iceberg_insert ext_s3 sample_batch Map.empty world_old = (Inr (), w')
     \<and> tables world_old ''ns.tbl'' = Some [PList [PInt 7]]
     \<and> tables w' ''ns.tbl'' = Some [PList [PInt 1], PList [PInt 2]]
     \<and> (\<exists>new. calls w' = calls world_old @ new \<and> (\<forall>d t. Append d t \<notin> set new))"
proof -
  obtain conn where c: "iceberg_connection ext_s3 = Inr conn"
    and cp: "conn ''cloud_provider'' = Some ''s3''"
    and tn: "conn ''table'' = Some ''tbl''" "conn ''namespace'' = Some ''ns''"
    using iceberg_connection_ext_s3 by blast
  have path: "full_table_path conn Map.empty = ''ns.tbl''"
    using tn by (simp add: full_table_path_def str_of_def)
  have nr: "\<forall>c. raises ext_s3 c = None" by (simp add: ext_s3_def)
  have "dict_get (pydict conn) ''cloud_provider'' PNone = PStr ''s3''"
    using cp by (simp add: dict_get_def pydict_def)
  from init_s3_ok [OF this nr] obtain wr w1 where
    i: "IcebergWriter_init ext_s3 (pydict conn) world_old = (Inr wr, w1)" by blast
  have "\<exists>w2. IcebergWriter_write ext_s3 wr (PyArrowTable [(''id'', ''long'')] [PList [PInt 1], PList [PInt 2]])
               ''ns.tbl'' ''overwrite'' w1 = (Inr (), w2)"
    unfolding IcebergWriter_write_def
    by (simp add: prog_bind_def validate_data_ok create_table_ok nr extcall_def print_def)
  then obtain w2 where
    wt: "IcebergWriter_write ext_s3 wr (PyArrowTable [(''id'', ''long'')] [PList [PInt 1], PList [PInt 2]])
            ''ns.tbl'' ''overwrite'' w1 = (Inr (), w2)" by blast
  have run: "\<exists>w'. iceberg_insert ext_s3 sample_batch Map.empty world_old = (Inr (), w')"
    unfolding iceberg_insert_def
    by (simp add: prog_bind_def prog_lift_def c i sample_batch_def path wt print_def)
  then obtain w' where r: "iceberg_insert ext_s3 sample_batch Map.empty world_old = (Inr (), w')"
    by blast
  have old: "tables world_old ''ns.tbl'' = Some [PList [PInt 7]]" by (simp add: world_old_def)
  from insert_overwrites [OF r] c path r old show ?thesis
    by (auto simp add: sample_batch_def)
qed

text \<open>
  C3. With \<open>SOURCES__MONGODB__COLLECTION_NAMES\<close> unset, \<open>load_select_collection_db\<close>
  calls \<open>split\<close> on the \<open>None\<close> that \<open>os.getenv\<close> returned and ends in an
  \<open>AttributeError\<close> that does not name the variable, where \<open>get_env_var\<close> on the same
  variable raises the \<open>ValueError\<close> naming it.
\<close>

theorem collection_names_unset:
  "environ ext_no_collections ''SOURCES__MONGODB__COLLECTION_NAMES'' = None
   \<and> load_select_collection_db ext_no_collections None world0
       = (Inl (AttributeError (quoted ''NoneType'' @ '' object has no attribute '' @ quoted ''split'')),
          world0\<lparr>calls := [DltPipeline ''mongo_to_postgres'' ''mongo_select'']\<rparr>)
   \<and> get_env_var ext_no_collections ''SOURCES__MONGODB__COLLECTION_NAMES'' None
       = Inl (ValueError (''Environment variable '' @ quoted ''SOURCES__MONGODB__COLLECTION_NAMES''
                @ '' is required but not set.''))"
  by (simp add: load_select_collection_db_def ext_no_collections_def ext_s3_def env_s3_def
      prog_bind_def extcall_def prog_raise_def no_attribute_def world0_def get_env_var_def)

end
